theory Spec2Isabelle
  imports Complex_Main "HOL-Library.Word"
begin

section \<open>JavaScript built-ins used by the services\<close>

text \<open>
  Strings are lists of one-byte code units. A JavaScript \<open>number\<close> is one of the three
  non-finite values or a finite value, held exactly as a rational: rounding to the
  nearest double is not part of the model.
\<close>

datatype jsnumber = NaN | PosInfinity | NegInfinity | Num rat

datatype jsvalue = JUndefined | JNull | JBool bool | JNumber jsnumber | JString string

text \<open>
  An object is the list of its own properties in the order of \<open>Object.keys\<close>; in a
  well-formed object the names are distinct. A property that is absent reads as
  \<open>undefined\<close>.
\<close>

type_synonym jsobject = "(string \<times> jsvalue) list"

definition get_prop :: "jsobject \<Rightarrow> string \<Rightarrow> jsvalue" where
  "get_prop obj k = (case map_of obj k of None \<Rightarrow> JUndefined | Some v \<Rightarrow> v)"

definition dquote :: char where
  "dquote = CHR 0x22"

definition is_digit :: "char \<Rightarrow> bool" where
  "is_digit c = (48 \<le> (of_char c :: nat) \<and> (of_char c :: nat) \<le> 57)"

text \<open>\<open>StrWhiteSpaceChar\<close> of ECMAScript, for code units below 256: TAB, LF, VT, FF, CR, SP, NBSP.\<close>

definition is_white_space :: "char \<Rightarrow> bool" where
  "is_white_space c = ((of_char c :: nat) \<in> {9, 10, 11, 12, 13, 32, 160})"

definition digit_value :: "char \<Rightarrow> int" where
  "digit_value c = int (of_char c) - 48"

definition digits_value :: "string \<Rightarrow> int" where
  "digits_value ds = foldl (\<lambda>acc c. 10 * acc + digit_value c) 0 ds"

text \<open>
  \<open>String.prototype.slice(start, end)\<close>: a negative index counts from the end, both
  indices are clamped to the string, and an empty range gives the empty string.
\<close>

definition js_slice :: "string \<Rightarrow> int \<Rightarrow> int \<Rightarrow> string" where
  "js_slice s b e =
     (let n = int (length s);
          from = (if b < 0 then max (n + b) 0 else min b n);
          to = (if e < 0 then max (n + e) 0 else min e n)
      in take (nat (to - from)) (drop (nat from) s))"

text \<open>
  \<open>Number.parseInt(s, 10)\<close>: leading white space is skipped, one sign is read, then the
  longest run of decimal digits; what follows the digits is ignored. No digit at all
  gives \<open>NaN\<close>, which is \<open>None\<close> here.
\<close>

definition parseInt :: "string \<Rightarrow> int option" where
  "parseInt s =
     (let t = dropWhile is_white_space s;
          sign = (case t of [] \<Rightarrow> 1 | c # _ \<Rightarrow> if c = CHR ''-'' then - 1 else 1);
          u = (case t of [] \<Rightarrow> [] | c # r \<Rightarrow> if c = CHR ''-'' \<or> c = CHR ''+'' then r else t);
          ds = takeWhile is_digit u
      in if ds = [] then None else Some (sign * digits_value ds))"

text \<open>
  \<open>parseInt(n, 10)\<close> of a number reads the numeral \<open>Number::toString\<close> prints. That numeral is
  in positional notation when \<open>10^-6 \<le> |n| < 10^21\<close>, so the integer part is read; outside
  that range it is in exponent notation and only the first significant digit is read.
\<close>

function first_digit :: "nat \<Rightarrow> nat" where
  "first_digit n = (if n < 10 then n else first_digit (n div 10))"
  by pat_completeness auto
termination
  by (relation "measure (\<lambda>n. n)") auto

function leading_digit :: "nat \<Rightarrow> nat \<Rightarrow> nat" where
  "leading_digit a b = (if a = 0 \<or> b \<le> a then a div b else leading_digit (10 * a) b)"
  by pat_completeness auto
termination
  by (relation "measure (\<lambda>(a, b). b - a)") auto

definition parseInt_number :: "jsnumber \<Rightarrow> int option" where
  "parseInt_number n =
     (case n of
        Num q \<Rightarrow>
          (let sign = (if q < 0 then - 1 else 1); m = \<bar>q\<bar> in
           if m = 0 then Some 0
           else if 1 / 10 ^ 6 \<le> m \<and> m < 10 ^ 21 then Some (sign * \<lfloor>m\<rfloor>)
           else if 10 ^ 21 \<le> m then Some (sign * int (first_digit (nat \<lfloor>m\<rfloor>)))
           else (case quotient_of m of
                   (a, b) \<Rightarrow> Some (sign * int (leading_digit (nat a) (nat b)))))
      | _ \<Rightarrow> None)"

text \<open>
  \<open>Number.parseFloat(s)\<close>: leading white space is skipped, then the longest prefix that is
  a \<open>StrDecimalLiteral\<close> is read: a sign, then \<open>Infinity\<close> or digits with an optional
  fraction and an optional exponent. No such prefix gives \<open>NaN\<close>.
\<close>

definition pow10 :: "int \<Rightarrow> rat" where
  "pow10 k = (if 0 \<le> k then 10 ^ nat k else 1 / 10 ^ nat (- k))"

definition exponent_part :: "string \<Rightarrow> int" where
  "exponent_part r =
     (case r of
        [] \<Rightarrow> 0
      | c # r1 \<Rightarrow>
          if c = CHR ''e'' \<or> c = CHR ''E'' then
            (let sign = (case r1 of [] \<Rightarrow> 1 | x # _ \<Rightarrow> if x = CHR ''-'' then - 1 else 1);
                 r2 = (case r1 of [] \<Rightarrow> [] | x # xs \<Rightarrow> if x = CHR ''-'' \<or> x = CHR ''+'' then xs else r1);
                 ds = takeWhile is_digit r2
             in if ds = [] then 0 else sign * digits_value ds)
          else 0)"

definition parseFloat :: "string \<Rightarrow> jsnumber" where
  "parseFloat s =
     (let t = dropWhile is_white_space s;
          neg = (case t of [] \<Rightarrow> False | c # _ \<Rightarrow> c = CHR ''-'');
          u = (case t of [] \<Rightarrow> [] | c # r \<Rightarrow> if c = CHR ''-'' \<or> c = CHR ''+'' then r else t)
      in if take 8 u = ''Infinity'' then (if neg then NegInfinity else PosInfinity)
         else
           let d1 = takeWhile is_digit u;
               r1 = dropWhile is_digit u;
               d2 = (case r1 of [] \<Rightarrow> [] | c # r \<Rightarrow> if c = CHR ''.'' then takeWhile is_digit r else []);
               r2 = (case r1 of [] \<Rightarrow> [] | c # r \<Rightarrow> if c = CHR ''.'' then dropWhile is_digit r else r1)
           in if d1 = [] \<and> d2 = [] then NaN
              else Num ((if neg then - 1 else 1) * of_int (digits_value (d1 @ d2)) *
                        pow10 (exponent_part r2 - int (length d2))))"

text \<open>
  The two parsers applied to any value: the value is converted to a string first.
  \<open>undefined\<close>, \<open>null\<close>, \<open>true\<close> and \<open>false\<close> print as words without a numeric prefix, and a
  number prints as a numeral that \<open>parseFloat\<close> reads back as the same number.
\<close>

definition parseFloat_value :: "jsvalue \<Rightarrow> jsnumber" where
  "parseFloat_value v =
     (case v of JString s \<Rightarrow> parseFloat s | JNumber n \<Rightarrow> n | _ \<Rightarrow> NaN)"

definition parseInt_value :: "jsvalue \<Rightarrow> int option" where
  "parseInt_value v =
     (case v of JString s \<Rightarrow> parseInt s | JNumber n \<Rightarrow> parseInt_number n | _ \<Rightarrow> None)"

definition isNaN :: "jsnumber \<Rightarrow> bool" where
  "isNaN n = (n = NaN)"

text \<open>\<open>Boolean(v)\<close>\<close>

definition Boolean :: "jsvalue \<Rightarrow> bool" where
  "Boolean v =
     (case v of
        JUndefined \<Rightarrow> False
      | JNull \<Rightarrow> False
      | JBool b \<Rightarrow> b
      | JNumber n \<Rightarrow> n \<noteq> NaN \<and> n \<noteq> Num 0
      | JString s \<Rightarrow> s \<noteq> [])"

text \<open>
  \<open>toLowerCase\<close>, \<open>toUpperCase\<close> and \<open>trim\<close> on ASCII text: a code unit outside \<open>A-Z\<close> and
  \<open>a-z\<close> is left as it is.
\<close>

definition toLowerCase :: "string \<Rightarrow> string" where
  "toLowerCase s =
     map (\<lambda>c. if 65 \<le> (of_char c :: nat) \<and> (of_char c :: nat) \<le> 90
               then char_of ((of_char c :: nat) + 32) else c) s"

definition toUpperCase :: "string \<Rightarrow> string" where
  "toUpperCase s =
     map (\<lambda>c. if 97 \<le> (of_char c :: nat) \<and> (of_char c :: nat) \<le> 122
               then char_of ((of_char c :: nat) - 32) else c) s"

definition trim :: "string \<Rightarrow> string" where
  "trim s = rev (dropWhile is_white_space (rev (dropWhile is_white_space s)))"

definition startsWith :: "string \<Rightarrow> string \<Rightarrow> bool" where
  "startsWith s p = (take (length p) s = p)"

definition contains_str :: "string \<Rightarrow> string \<Rightarrow> bool" where
  "contains_str s p = list_ex (\<lambda>k. take (length p) (drop k s) = p) [0..<Suc (length s)]"

subsection \<open>Regular expressions\<close>

text \<open>
  The fragment of regular expressions the services use: a sequence of atoms, anchored at
  the start of the input by \<open>^\<close> and not anchored at its end. An atom is a literal
  character or \<open>\d{lo,hi}\<close>; under the \<open>u\<close> flag \<open>\d\<close> is an ASCII digit. The repetition is
  greedy and backtracks, as \<open>RegExp.prototype.test\<close> does.
\<close>

datatype atom = Lit char | Digits nat nat

fun regex_test :: "atom list \<Rightarrow> string \<Rightarrow> bool" where
  "regex_test [] s = True"
| "regex_test (Lit c # as) s =
     (case s of [] \<Rightarrow> False | x # xs \<Rightarrow> x = c \<and> regex_test as xs)"
| "regex_test (Digits lo hi # as) s =
     list_ex (\<lambda>k. k \<le> length s \<and> list_all is_digit (take k s) \<and> regex_test as (drop k s))
       (rev [lo..<Suc hi])"

section \<open>The store\<close>

datatype autoart = COUPE | LIMO | KOMBI

text \<open>A date is the day number the column of type \<open>date\<close> holds; \<open>None\<close> is \<open>Invalid Date\<close>.\<close>

type_synonym jsdate = "int option"

text \<open>
  The rows of the four tables of \<open>create-table.sql\<close> (the two time stamps are left out).
  The primary key of \<open>auto\<close> is a 32-bit signed integer; \<open>sint\<close> reads it.
\<close>

definition int32 :: "int \<Rightarrow> bool" where
  "int32 i = (- 2147483648 \<le> i \<and> i \<le> 2147483647)"

record auto_row =
  id_auto :: "32 word"
  version :: int
  fgnr :: string
  art :: "autoart option"
  preis :: rat
  rabatt :: int
  lieferbar :: bool
  datum :: "int option"
  schlagwoerter :: "string list option"

record modell_row =
  id_modell :: int
  modell_name :: string
  modell_auto_id :: int

record bild_row =
  id_bild :: int
  beschriftung :: string
  content_type :: string
  bild_auto_id :: int

record file_row =
  id_file :: int
  filename :: string
  mimetype :: "string option"
  file_auto_id :: int

text \<open>Every call of the Prisma client is recorded, in order.\<close>

datatype prisma_call =
    CallCount
  | CallCountFgnr string
  | CallFindUnique int
  | CallFindMany
  | CallCreate
  | CallUpdate int
  | CallDelete int

record mail =
  mail_id :: "int option"
  mail_modell :: string

text \<open>
  The world the services act on: the tables, the identity sequences, the record of the
  calls made to the Prisma client, and the mails handed to the mail service.
\<close>

record world =
  autos :: "auto_row list"
  modelle :: "modell_row list"
  bilder :: "bild_row list"
  files :: "file_row list"
  seq_auto :: int
  seq_modell :: int
  seq_bild :: int
  calls :: "prisma_call list"
  mails :: "mail list"

datatype prisma_error =
    ValidationError
  | ValueOutOfRange
  | UniqueConstraintViolation
  | CheckConstraintViolation
  | NumericOverflow
  | RecordNotFound

datatype not_found =
    KeinAutoMitId "int option"
  | UngueltigeSuchparameter
  | KeineAutosGefunden jsobject nat
  | UngueltigeSeite nat

datatype error =
    TypeError
  | NotFoundException not_found
  | FgnrExistsException string
  | VersionInvalidException string
  | VersionOutdatedException int
  | PrismaError prisma_error

type_synonym 'a result = "(error + 'a) \<times> world"

definition log_call :: "prisma_call \<Rightarrow> world \<Rightarrow> world" where
  "log_call c w = w\<lparr>calls := calls w @ [c]\<rparr>"

text \<open>
  \<open>$transaction\<close>: when the callback throws, the tables are as they were before; the
  sequences and the record of calls are not rolled back.
\<close>

definition transaction :: "(world \<Rightarrow> 'a result) \<Rightarrow> world \<Rightarrow> 'a result" where
  "transaction cb w =
     (case cb w of
        (Inl e, w') \<Rightarrow>
          (Inl e, w'\<lparr>autos := autos w, modelle := modelle w, bilder := bilder w, files := files w\<rparr>)
      | (Inr v, w') \<Rightarrow> (Inr v, w'))"

subsection \<open>Column types and constraints of table \<open>auto\<close>\<close>

text \<open>
  \<open>preis decimal(8,2)\<close>: a value is rounded to two places, half away from zero, and must
  then be below \<open>10^6\<close> in magnitude. \<open>rabatt integer CHECK (rabatt >= 0 AND rabatt <= 100)\<close>.
  \<open>fgnr text NOT NULL UNIQUE\<close>. \<open>id\<close> is the primary key.
\<close>

definition round2 :: "rat \<Rightarrow> rat" where
  "round2 q =
     (if 0 \<le> q then of_int \<lfloor>q * 100 + 1 / 2\<rfloor> / 100
      else - (of_int \<lfloor>- q * 100 + 1 / 2\<rfloor> / 100))"

definition check_row :: "auto_row \<Rightarrow> auto_row list \<Rightarrow> prisma_error option" where
  "check_row r others =
     (if list_ex (\<lambda>x. id_auto x = id_auto r) others then Some UniqueConstraintViolation
      else if list_ex (\<lambda>x. fgnr x = fgnr r) others then Some UniqueConstraintViolation
      else if \<not> (0 \<le> rabatt r \<and> rabatt r \<le> 100) then Some CheckConstraintViolation
      else if \<not> (\<bar>preis r\<bar> < 1000000) then Some NumericOverflow
      else None)"

subsection \<open>The calls of the Prisma client\<close>

text \<open>\<open>prisma.auto.count()\<close> and \<open>prisma.auto.count({ where: { fgnr } })\<close>.\<close>

definition prisma_count :: "world \<Rightarrow> nat \<times> world" where
  "prisma_count w = (length (autos w), log_call CallCount w)"

definition prisma_count_fgnr :: "string \<Rightarrow> world \<Rightarrow> nat \<times> world" where
  "prisma_count_fgnr f w =
     (length (filter (\<lambda>r. fgnr r = f) (autos w)), log_call (CallCountFgnr f) w)"

text \<open>
  \<open>prisma.auto.findUnique({ where: { id } })\<close>; the relations are joined by \<open>include_rel\<close>.
  An id that does not fit the 32-bit column is refused by the store: the call throws.
\<close>

definition prisma_findUnique :: "int \<Rightarrow> world \<Rightarrow> auto_row option result" where
  "prisma_findUnique i w0 =
     (let w = log_call (CallFindUnique i) w0 in
      if \<not> int32 i then (Inl (PrismaError ValueOutOfRange), w)
      else (Inr (find (\<lambda>r. sint (id_auto r) = i) (autos w)), w))"

record AutoMitModellUndBilder =
  auto :: auto_row
  modell :: "modell_row option"
  bild :: "bild_row list option"

definition include_rel :: "bool \<Rightarrow> world \<Rightarrow> auto_row \<Rightarrow> AutoMitModellUndBilder" where
  "include_rel mitBilder w r =
     \<lparr>auto = r,
      modell = find (\<lambda>m. modell_auto_id m = sint (id_auto r)) (modelle w),
      bild = (if mitBilder then Some (filter (\<lambda>b. bild_auto_id b = sint (id_auto r)) (bilder w))
              else None)\<rparr>"

text \<open>
  \<open>Prisma.autoCreateInput\<close>. An optional property is an \<open>option\<close>; \<open>null\<close> and \<open>undefined\<close>
  both store \<open>NULL\<close>. \<open>cr_modell\<close> is \<open>{ create: { modell } }\<close> and \<open>cr_bild\<close> is
  \<open>{ create: [{ beschriftung, content_type }, ...] }\<close>.
\<close>

record autoCreateInput =
  cr_version :: "int option"
  cr_fgnr :: "string option"
  cr_art :: "autoart option"
  cr_preis :: jsnumber
  cr_rabatt :: jsnumber
  cr_lieferbar :: "bool option"
  cr_datum :: "jsdate option"
  cr_schlagwoerter :: "string list option"
  cr_modell :: "string option"
  cr_bild :: "(string \<times> string) list option"

text \<open>
  What the client checks before it sends a statement: a required property is there, a
  \<open>Decimal\<close> and an \<open>Int\<close> are finite numbers, a \<open>Date\<close> is valid. Of a number for an
  \<open>Int\<close> column the integer part \<open>\<lfloor>q\<rfloor>\<close> is written.
\<close>

definition valid_decimal :: "jsnumber \<Rightarrow> bool" where
  "valid_decimal n = (case n of Num q \<Rightarrow> True | _ \<Rightarrow> False)"

definition valid_int :: "jsnumber \<Rightarrow> bool" where
  "valid_int n = (case n of Num q \<Rightarrow> True | _ \<Rightarrow> False)"

definition num_value :: "jsnumber \<Rightarrow> rat" where
  "num_value n = (case n of Num q \<Rightarrow> q | _ \<Rightarrow> 0)"

definition valid_date :: "jsdate option \<Rightarrow> bool" where
  "valid_date d = (d \<noteq> Some None)"

definition date_value :: "jsdate option \<Rightarrow> int option" where
  "date_value d = (case d of None \<Rightarrow> None | Some x \<Rightarrow> x)"

definition valid_create :: "autoCreateInput \<Rightarrow> bool" where
  "valid_create d =
     (cr_fgnr d \<noteq> None \<and> valid_decimal (cr_preis d) \<and> valid_int (cr_rabatt d) \<and>
      valid_date (cr_datum d))"

definition new_row :: "int \<Rightarrow> autoCreateInput \<Rightarrow> auto_row" where
  "new_row i d =
     \<lparr>id_auto = word_of_int i,
      version = (case cr_version d of None \<Rightarrow> 0 | Some v \<Rightarrow> v),
      fgnr = (case cr_fgnr d of None \<Rightarrow> [] | Some f \<Rightarrow> f),
      art = cr_art d,
      preis = round2 (num_value (cr_preis d)),
      rabatt = \<lfloor>num_value (cr_rabatt d)\<rfloor>,
      lieferbar = (case cr_lieferbar d of None \<Rightarrow> False | Some b \<Rightarrow> b),
      datum = date_value (cr_datum d),
      schlagwoerter = cr_schlagwoerter d\<rparr>"

fun new_bilder :: "int \<Rightarrow> int \<Rightarrow> (string \<times> string) list \<Rightarrow> bild_row list" where
  "new_bilder i k [] = []"
| "new_bilder i k ((b, c) # bs) =
     \<lparr>id_bild = k, beschriftung = b, content_type = c, bild_auto_id = i\<rparr> # new_bilder i (k + 1) bs"

text \<open>
  \<open>tx.auto.create({ data, include: { modell: true, bild: true } })\<close>: the row of \<open>auto\<close> takes
  the next value of its identity sequence, then the nested rows of \<open>modell\<close> and \<open>bild\<close> are
  written with the new id as their foreign key. A sequence that has left the 32-bit range
  gives no id any more.
\<close>

definition prisma_create :: "autoCreateInput \<Rightarrow> world \<Rightarrow> AutoMitModellUndBilder result" where
  "prisma_create d w0 =
     (let w = log_call CallCreate w0 in
      if \<not> valid_create d then (Inl (PrismaError ValidationError), w)
      else if \<not> int32 (seq_auto w) then (Inl (PrismaError ValueOutOfRange), w)
      else
        let i = seq_auto w;
            r = new_row i d;
            w1 = w\<lparr>seq_auto := i + 1\<rparr>
        in case check_row r (autos w) of
             Some e \<Rightarrow> (Inl (PrismaError e), w1)
           | None \<Rightarrow>
               let w2 = w1\<lparr>autos := autos w1 @ [r]\<rparr>;
                   w3 = (case cr_modell d of
                           None \<Rightarrow> w2
                         | Some m \<Rightarrow>
                             w2\<lparr>modelle := modelle w2 @
                                   [\<lparr>id_modell = seq_modell w2, modell_name = m,
                                     modell_auto_id = i\<rparr>],
                                 seq_modell := seq_modell w2 + 1\<rparr>);
                   bs = (case cr_bild d of None \<Rightarrow> [] | Some l \<Rightarrow> l);
                   w4 = w3\<lparr>bilder := bilder w3 @ new_bilder i (seq_bild w3) bs,
                           seq_bild := seq_bild w3 + int (length bs)\<rparr>
               in if list_ex (\<lambda>m. modell_auto_id m = i) (modelle w2) \<and> cr_modell d \<noteq> None
                  then (Inl (PrismaError UniqueConstraintViolation), w3)
                  else (Inr (include_rel True w4 r), w4))"

text \<open>
  \<open>Prisma.autoUpdateInput\<close>: a property that is \<open>undefined\<close> leaves the column as it is. The
  version is either set to a number or changed by \<open>{ increment: n }\<close>.
\<close>

datatype int_update = SetTo int | Increment int

record autoUpdateInput =
  up_version :: "int_update option"
  up_fgnr :: "string option"
  up_art :: "autoart option option"
  up_preis :: "jsnumber option"
  up_rabatt :: "jsnumber option"
  up_lieferbar :: "bool option"
  up_datum :: "jsdate option option"
  up_schlagwoerter :: "string list option"

definition valid_update :: "autoUpdateInput \<Rightarrow> bool" where
  "valid_update d =
     ((case up_preis d of None \<Rightarrow> True | Some p \<Rightarrow> valid_decimal p) \<and>
      (case up_rabatt d of None \<Rightarrow> True | Some p \<Rightarrow> valid_int p) \<and>
      (case up_datum d of None \<Rightarrow> True | Some x \<Rightarrow> valid_date x))"

definition apply_update :: "autoUpdateInput \<Rightarrow> auto_row \<Rightarrow> auto_row" where
  "apply_update d r =
     r\<lparr>version := (case up_version d of
                     None \<Rightarrow> version r
                   | Some (SetTo v) \<Rightarrow> v
                   | Some (Increment n) \<Rightarrow> version r + n),
       fgnr := (case up_fgnr d of None \<Rightarrow> fgnr r | Some f \<Rightarrow> f),
       art := (case up_art d of None \<Rightarrow> art r | Some a \<Rightarrow> a),
       preis := (case up_preis d of None \<Rightarrow> preis r | Some p \<Rightarrow> round2 (num_value p)),
       rabatt := (case up_rabatt d of None \<Rightarrow> rabatt r | Some p \<Rightarrow> \<lfloor>num_value p\<rfloor>),
       lieferbar := (case up_lieferbar d of None \<Rightarrow> lieferbar r | Some b \<Rightarrow> b),
       datum := (case up_datum d of None \<Rightarrow> datum r | Some x \<Rightarrow> date_value x),
       schlagwoerter := (case up_schlagwoerter d of None \<Rightarrow> schlagwoerter r | Some l \<Rightarrow> Some l)\<rparr>"

text \<open>\<open>tx.auto.update({ data, where: { id } })\<close>.\<close>

definition prisma_update :: "int \<Rightarrow> autoUpdateInput \<Rightarrow> world \<Rightarrow> auto_row result" where
  "prisma_update i d w0 =
     (let w = log_call (CallUpdate i) w0 in
      if \<not> valid_update d then (Inl (PrismaError ValidationError), w)
      else if \<not> int32 i then (Inl (PrismaError ValueOutOfRange), w)
      else case find (\<lambda>r. sint (id_auto r) = i) (autos w) of
             None \<Rightarrow> (Inl (PrismaError RecordNotFound), w)
           | Some r \<Rightarrow>
               let r' = apply_update d r in
               case check_row r' (filter (\<lambda>x. sint (id_auto x) \<noteq> i) (autos w)) of
                 Some e \<Rightarrow> (Inl (PrismaError e), w)
               | None \<Rightarrow>
                   (Inr r', w\<lparr>autos := map (\<lambda>x. if sint (id_auto x) = i then r' else x) (autos w)\<rparr>))"

text \<open>
  \<open>tx.auto.delete({ where: { id } })\<close>; the rows of \<open>modell\<close>, \<open>bild\<close> and \<open>auto_file\<close> that
  reference the row go with it (\<open>ON DELETE CASCADE\<close>).
\<close>

definition prisma_delete :: "int \<Rightarrow> world \<Rightarrow> auto_row result" where
  "prisma_delete i w0 =
     (let w = log_call (CallDelete i) w0 in
      if \<not> int32 i then (Inl (PrismaError ValueOutOfRange), w)
      else case find (\<lambda>r. sint (id_auto r) = i) (autos w) of
        None \<Rightarrow> (Inl (PrismaError RecordNotFound), w)
      | Some r \<Rightarrow>
          (Inr r, w\<lparr>autos := filter (\<lambda>x. sint (id_auto x) \<noteq> i) (autos w),
                    modelle := filter (\<lambda>m. modell_auto_id m \<noteq> i) (modelle w),
                    bilder := filter (\<lambda>b. bild_auto_id b \<noteq> i) (bilder w),
                    files := filter (\<lambda>f. file_auto_id f \<noteq> i) (files w)\<rparr>))"

section \<open>AutoService: reading by id\<close>

text \<open>
  \<open>findById({ id, mitBilder = false })\<close>: the row with its \<open>modell\<close> (and its \<open>bild\<close> rows when
  asked for), \<open>NotFoundException\<close> when there is none; \<open>schlagwoerter ??= []\<close>.
\<close>

definition AutoService_findById ::
    "int \<Rightarrow> bool \<Rightarrow> world \<Rightarrow> AutoMitModellUndBilder result" where
  "AutoService_findById i mitBilder w =
     (case prisma_findUnique i w of
        (Inl e, w') \<Rightarrow> (Inl e, w')
      | (Inr None, w') \<Rightarrow> (Inl (NotFoundException (KeinAutoMitId (Some i))), w')
      | (Inr (Some r), w') \<Rightarrow>
          (Inr (include_rel mitBilder w'
                 (r\<lparr>schlagwoerter :=
                      (case schlagwoerter r of None \<Rightarrow> Some [] | Some l \<Rightarrow> Some l)\<rparr>)), w'))"

section \<open>AutoWriteService\<close>

text \<open>\<open>VERSION_PATTERN = /^"\d{1,3}"/u\<close>\<close>

definition VERSION_PATTERN :: "atom list" where
  "VERSION_PATTERN = [Lit dquote, Digits 1 3, Lit dquote]"

definition validateCreate :: "autoCreateInput \<Rightarrow> world \<Rightarrow> unit result" where
  "validateCreate a w =
     (case cr_fgnr a of
        None \<Rightarrow> (Inr (), w)
      | Some f \<Rightarrow>
          (case prisma_count_fgnr f w of
             (anzahl, w') \<Rightarrow>
               if anzahl > 0 then (Inl (FgnrExistsException f), w') else (Inr (), w')))"

definition sendmail :: "mail \<Rightarrow> world \<Rightarrow> world" where
  "sendmail m w = w\<lparr>mails := mails w @ [m]\<rparr>"

text \<open>
  \<open>create(auto)\<close>. When the transaction has returned, \<open>autoDb\<close> is set, so the branches
  \<open>?? 'N/A'\<close> for the id and \<open>?? Number.NaN\<close> are not taken.
\<close>

definition AutoWriteService_create :: "autoCreateInput \<Rightarrow> world \<Rightarrow> int result" where
  "AutoWriteService_create a w =
     (case validateCreate a w of
        (Inl e, w1) \<Rightarrow> (Inl e, w1)
      | (Inr _, w1) \<Rightarrow>
          (case transaction (prisma_create a) w1 of
             (Inl e, w2) \<Rightarrow> (Inl e, w2)
           | (Inr autoDb, w2) \<Rightarrow>
               (Inr (sint (id_auto (auto autoDb))),
                sendmail \<lparr>mail_id = Some (sint (id_auto (auto autoDb))),
                          mail_modell = (case modell autoDb of
                                           None \<Rightarrow> ''N/A''
                                         | Some m \<Rightarrow> modell_name m)\<rparr> w2)))"

text \<open>
  \<open>#validateUpdate(id, versionStr)\<close>. \<open>version < autoDb.version\<close> is false when \<open>version\<close> is
  \<open>NaN\<close>.
\<close>

definition validateUpdate :: "int \<Rightarrow> string \<Rightarrow> world \<Rightarrow> unit result" where
  "validateUpdate i versionStr w =
     (if \<not> regex_test VERSION_PATTERN versionStr
      then (Inl (VersionInvalidException versionStr), w)
      else
        let v = parseInt (js_slice versionStr 1 (- 1)) in
        case AutoService_findById i False w of
          (Inl e, w') \<Rightarrow> (Inl e, w')
        | (Inr autoDb, w') \<Rightarrow>
            (case v of
               None \<Rightarrow> (Inr (), w')
             | Some n \<Rightarrow>
                 if n < version (auto autoDb) then (Inl (VersionOutdatedException n), w')
                 else (Inr (), w')))"

text \<open>
  \<open>update({ id, auto, version })\<close>: the three properties of \<open>UpdateParams\<close> are the three
  arguments; \<open>id\<close> may be \<open>undefined\<close>.
\<close>

definition AutoWriteService_update ::
    "int option \<Rightarrow> autoUpdateInput \<Rightarrow> string \<Rightarrow> world \<Rightarrow> int result" where
  "AutoWriteService_update ido a versionStr w =
     (case ido of
        None \<Rightarrow> (Inl (NotFoundException (KeinAutoMitId None)), w)
      | Some i \<Rightarrow>
          (case validateUpdate i versionStr w of
             (Inl e, w1) \<Rightarrow> (Inl e, w1)
           | (Inr _, w1) \<Rightarrow>
               (case transaction (prisma_update i (a\<lparr>up_version := Some (Increment 1)\<rparr>)) w1 of
                  (Inl e, w2) \<Rightarrow> (Inl e, w2)
                | (Inr autoUpdated, w2) \<Rightarrow> (Inr (version autoUpdated), w2))))"

text \<open>\<open>delete(id)\<close>: what \<open>findUnique\<close> throws leaves \<open>delete\<close> as it is thrown.\<close>

definition AutoWriteService_delete :: "int \<Rightarrow> world \<Rightarrow> bool result" where
  "AutoWriteService_delete i w =
     (case prisma_findUnique i w of
        (Inl e, w1) \<Rightarrow> (Inl e, w1)
      | (Inr None, w1) \<Rightarrow> (Inr False, w1)
      | (Inr (Some _), w1) \<Rightarrow>
          (case transaction (prisma_delete i) w1 of
             (Inl e, w2) \<Rightarrow> (Inl e, w2)
           | (Inr _, w2) \<Rightarrow> (Inr True, w2)))"

section \<open>WhereBuilder\<close>

text \<open>
  \<open>autoWhereInput\<close>, as far as \<open>build\<close> fills it: at most one condition for each column,
  each condition one operator with its operand. \<open>where_modell\<close> is the condition on the
  name of the related \<open>modell\<close>.
\<close>

datatype 'a prisma_filter =
    ContainsInsensitive 'a
  | StartsWith 'a
  | Lte 'a
  | Gte 'a
  | Equals 'a
  | Has 'a

record autoWhereInput =
  where_modell :: "jsvalue prisma_filter option"
  where_fgnr :: "jsvalue prisma_filter option"
  where_preis :: "jsnumber prisma_filter option"
  where_rabatt :: "int prisma_filter option"
  where_art :: "jsvalue prisma_filter option"
  where_lieferbar :: "bool prisma_filter option"
  where_datum :: "jsdate prisma_filter option"
  where_schlagwoerter :: "string prisma_filter option"

definition empty_where :: autoWhereInput where
  "empty_where =
     \<lparr>where_modell = None, where_fgnr = None, where_preis = None, where_rabatt = None,
      where_art = None, where_lieferbar = None, where_datum = None,
      where_schlagwoerter = None\<rparr>"

text \<open>
  The body of the \<open>switch\<close> in \<open>build\<close>, for one entry of \<open>restProps\<close>. The constructor
  \<open>Date\<close> is the parameter \<open>new_Date\<close>.
\<close>

definition build_entry ::
    "(jsvalue \<Rightarrow> jsdate) \<Rightarrow> string \<times> jsvalue \<Rightarrow> autoWhereInput \<Rightarrow> autoWhereInput" where
  "build_entry new_Date kv wh =
     (case kv of (key, val) \<Rightarrow>
        if key = ''modell'' then wh\<lparr>where_modell := Some (ContainsInsensitive val)\<rparr>
        else if key = ''fgnr'' then wh\<lparr>where_fgnr := Some (StartsWith val)\<rparr>
        else if key = ''preis'' then
          (let preisNumber = parseFloat_value val in
           if \<not> isNaN preisNumber then wh\<lparr>where_preis := Some (Lte preisNumber)\<rparr> else wh)
        else if key = ''rabatt'' then
          (case parseInt_value val of
             None \<Rightarrow> wh
           | Some rabattNumber \<Rightarrow> wh\<lparr>where_rabatt := Some (Gte rabattNumber)\<rparr>)
        else if key = ''art'' then wh\<lparr>where_art := Some (Equals val)\<rparr>
        else if key = ''lieferbar'' then
          (let boolValue = (case val of JString s \<Rightarrow> toLowerCase s = ''true'' | _ \<Rightarrow> Boolean val)
           in wh\<lparr>where_lieferbar := Some (Equals boolValue)\<rparr>)
        else if key = ''datum'' then wh\<lparr>where_datum := Some (Gte (new_Date val))\<rparr>
        else wh)"

text \<open>
  \<open>#buildSchlagwoerter(schlagwort)\<close>. \<open>schlagwort.trim()\<close> throws a \<open>TypeError\<close> when the value
  is neither \<open>undefined\<close> nor a string.
\<close>

definition buildSchlagwoerter :: "jsvalue \<Rightarrow> error + string option" where
  "buildSchlagwoerter schlagwort =
     (case schlagwort of
        JUndefined \<Rightarrow> Inr None
      | JString s \<Rightarrow> if trim s = [] then Inr None else Inr (Some (toUpperCase s))
      | _ \<Rightarrow> Inl TypeError)"

text \<open>\<open>build({ schlagwort, ...restProps })\<close>\<close>

definition WhereBuilder_build ::
    "(jsvalue \<Rightarrow> jsdate) \<Rightarrow> jsobject \<Rightarrow> error + autoWhereInput" where
  "WhereBuilder_build new_Date suchparameter =
     (let schlagwort = get_prop suchparameter ''schlagwort'';
          restProps = filter (\<lambda>kv. fst kv \<noteq> ''schlagwort'') suchparameter;
          wh = foldl (\<lambda>wh kv. build_entry new_Date kv wh) empty_where restProps
      in case buildSchlagwoerter schlagwort of
           Inl e \<Rightarrow> Inl e
         | Inr None \<Rightarrow> Inr wh
         | Inr (Some sw) \<Rightarrow> Inr (wh\<lparr>where_schlagwoerter := Some (Has sw)\<rparr>))"

section \<open>Queries of the store\<close>

text \<open>
  What a condition means for a row. A condition whose operand is \<open>undefined\<close> is no
  condition; a comparison with \<open>NULL\<close> does not hold.
\<close>

definition autoart_name :: "autoart \<Rightarrow> string" where
  "autoart_name a = (case a of COUPE \<Rightarrow> ''COUPE'' | LIMO \<Rightarrow> ''LIMO'' | KOMBI \<Rightarrow> ''KOMBI'')"

definition holds_string :: "jsvalue prisma_filter \<Rightarrow> string option \<Rightarrow> bool" where
  "holds_string f col =
     (case f of
        ContainsInsensitive (JString p) \<Rightarrow>
          (case col of None \<Rightarrow> False | Some s \<Rightarrow> contains_str (toLowerCase s) (toLowerCase p))
      | StartsWith (JString p) \<Rightarrow> (case col of None \<Rightarrow> False | Some s \<Rightarrow> startsWith s p)
      | Equals (JString p) \<Rightarrow> (case col of None \<Rightarrow> False | Some s \<Rightarrow> s = p)
      | _ \<Rightarrow> True)"

definition holds_preis :: "jsnumber prisma_filter \<Rightarrow> rat \<Rightarrow> bool" where
  "holds_preis f col =
     (case f of
        Lte (Num q) \<Rightarrow> col \<le> q
      | Gte (Num q) \<Rightarrow> q \<le> col
      | Equals (Num q) \<Rightarrow> col = q
      | _ \<Rightarrow> True)"

definition holds_int :: "int prisma_filter \<Rightarrow> int \<Rightarrow> bool" where
  "holds_int f col =
     (case f of Lte n \<Rightarrow> col \<le> n | Gte n \<Rightarrow> n \<le> col | Equals n \<Rightarrow> col = n | _ \<Rightarrow> True)"

definition holds_bool :: "bool prisma_filter \<Rightarrow> bool \<Rightarrow> bool" where
  "holds_bool f col = (case f of Equals b \<Rightarrow> col = b | _ \<Rightarrow> True)"

definition holds_date :: "jsdate prisma_filter \<Rightarrow> int option \<Rightarrow> bool" where
  "holds_date f col =
     (case f of
        Gte (Some d) \<Rightarrow> (case col of None \<Rightarrow> False | Some x \<Rightarrow> d \<le> x)
      | Lte (Some d) \<Rightarrow> (case col of None \<Rightarrow> False | Some x \<Rightarrow> x \<le> d)
      | Equals (Some d) \<Rightarrow> col = Some d
      | _ \<Rightarrow> True)"

definition holds_array :: "string prisma_filter \<Rightarrow> string list option \<Rightarrow> bool" where
  "holds_array f col =
     (case f of Has s \<Rightarrow> (case col of None \<Rightarrow> False | Some l \<Rightarrow> s \<in> set l) | _ \<Rightarrow> True)"

definition holds_opt :: "('f \<Rightarrow> 'c \<Rightarrow> bool) \<Rightarrow> 'f option \<Rightarrow> 'c \<Rightarrow> bool" where
  "holds_opt h f col = (case f of None \<Rightarrow> True | Some c \<Rightarrow> h c col)"

definition matches_auto :: "world \<Rightarrow> autoWhereInput \<Rightarrow> auto_row \<Rightarrow> bool" where
  "matches_auto w wh r =
     (holds_opt holds_string (where_modell wh)
        (map_option modell_name (find (\<lambda>m. modell_auto_id m = sint (id_auto r)) (modelle w))) \<and>
      holds_opt holds_string (where_fgnr wh) (Some (fgnr r)) \<and>
      holds_opt holds_preis (where_preis wh) (preis r) \<and>
      holds_opt holds_int (where_rabatt wh) (rabatt r) \<and>
      holds_opt holds_string (where_art wh) (map_option autoart_name (art r)) \<and>
      holds_opt holds_bool (where_lieferbar wh) (lieferbar r) \<and>
      holds_opt holds_date (where_datum wh) (datum r) \<and>
      holds_opt holds_array (where_schlagwoerter wh) (schlagwoerter r))"

text \<open>
  What the client checks before it sends the query: the operand of a condition on a
  string column is a string or \<open>undefined\<close>, the operand for the enum is one of its
  names, a \<open>Decimal\<close> is finite and a \<open>Date\<close> is valid.
\<close>

fun operand :: "'a prisma_filter \<Rightarrow> 'a" where
  "operand (ContainsInsensitive x) = x"
| "operand (StartsWith x) = x"
| "operand (Lte x) = x"
| "operand (Gte x) = x"
| "operand (Equals x) = x"
| "operand (Has x) = x"

definition valid_string_operand :: "jsvalue \<Rightarrow> bool" where
  "valid_string_operand v = (case v of JString s \<Rightarrow> True | JUndefined \<Rightarrow> True | _ \<Rightarrow> False)"

definition valid_enum_operand :: "jsvalue \<Rightarrow> bool" where
  "valid_enum_operand v =
     (case v of
        JString s \<Rightarrow> s = ''COUPE'' \<or> s = ''LIMO'' \<or> s = ''KOMBI''
      | JUndefined \<Rightarrow> True
      | _ \<Rightarrow> False)"

definition valid_where :: "autoWhereInput \<Rightarrow> bool" where
  "valid_where wh =
     (holds_opt (\<lambda>f _. valid_string_operand (operand f)) (where_modell wh) () \<and>
      holds_opt (\<lambda>f _. valid_string_operand (operand f)) (where_fgnr wh) () \<and>
      holds_opt (\<lambda>f _. valid_decimal (operand f)) (where_preis wh) () \<and>
      holds_opt (\<lambda>f _. valid_enum_operand (operand f)) (where_art wh) () \<and>
      holds_opt (\<lambda>f _. operand f \<noteq> None) (where_datum wh) ())"

text \<open>
  \<open>prisma.auto.findMany({ where, skip, take, include: { modell: true } })\<close>; without
  \<open>orderBy\<close> the rows come in the order of the table.
\<close>

definition prisma_findMany ::
    "autoWhereInput option \<Rightarrow> nat \<Rightarrow> nat \<Rightarrow> world \<Rightarrow> AutoMitModellUndBilder list result" where
  "prisma_findMany wh skip tk w0 =
     (let w = log_call CallFindMany w0 in
      case wh of
        None \<Rightarrow> (Inr (map (include_rel False w) (take tk (drop skip (autos w)))), w)
      | Some c \<Rightarrow>
          if \<not> valid_where c then (Inl (PrismaError ValidationError), w)
          else (Inr (map (include_rel False w)
                      (take tk (drop skip (filter (matches_auto w c) (autos w))))), w))"

section \<open>AutoService: searching\<close>

definition suchparameterNamen :: "string list" where
  "suchparameterNamen =
     [''fgnr'', ''art'', ''preis'', ''rabatt'', ''lieferbar'', ''datum'', ''schlagwort'', ''modell'']"

text \<open>
  A \<open>Pageable\<close> as \<open>createPageable\<close> makes it: page number and page size are natural
  numbers.
\<close>

record Pageable =
  number :: nat
  size_p :: nat

record Slice =
  content :: "AutoMitModellUndBilder list"
  totalElements :: nat

text \<open>\<open>count()\<close>: the number of all rows of \<open>auto\<close>.\<close>

definition AutoService_count :: "world \<Rightarrow> nat \<times> world" where
  "AutoService_count w = prisma_count w"

definition createSlice :: "AutoMitModellUndBilder list \<Rightarrow> nat \<Rightarrow> Slice" where
  "createSlice as n =
     \<lparr>content =
        map (\<lambda>a. a\<lparr>auto := (auto a)\<lparr>schlagwoerter :=
                     (case schlagwoerter (auto a) of None \<Rightarrow> Some [] | Some l \<Rightarrow> Some l)\<rparr>\<rparr>) as,
      totalElements = n\<rparr>"

definition findAll :: "Pageable \<Rightarrow> world \<Rightarrow> Slice result" where
  "findAll pageable w =
     (case prisma_findMany None (number pageable * size_p pageable) (size_p pageable) w of
        (Inl e, w1) \<Rightarrow> (Inl e, w1)
      | (Inr as, w1) \<Rightarrow>
          if length as = 0 then (Inl (NotFoundException (UngueltigeSeite (number pageable))), w1)
          else (case AutoService_count w1 of
                  (n, w2) \<Rightarrow> (Inr (createSlice as n), w2)))"

text \<open>\<open>#checkKeys(keys)\<close>: the loop clears the flag at every name that is not a search parameter.\<close>

definition checkKeys :: "string list \<Rightarrow> bool" where
  "checkKeys keys =
     foldl (\<lambda>validKeys key. if \<not> List.member suchparameterNamen key then False else validKeys)
       True keys"

definition checkEnums :: "jsobject \<Rightarrow> bool" where
  "checkEnums suchparameter =
     (let a = get_prop suchparameter ''art'' in
      a = JUndefined \<or> a = JString ''COUPE'' \<or> a = JString ''LIMO'' \<or> a = JString ''KOMBI'')"

text \<open>\<open>find(suchparameter, pageable)\<close>; \<open>suchparameter\<close> may be \<open>undefined\<close>.\<close>

definition AutoService_find ::
    "(jsvalue \<Rightarrow> jsdate) \<Rightarrow> jsobject option \<Rightarrow> Pageable \<Rightarrow> world \<Rightarrow> Slice result" where
  "AutoService_find new_Date suchparameter pageable w =
     (case suchparameter of
        None \<Rightarrow> findAll pageable w
      | Some sp \<Rightarrow>
          let keys = map fst sp in
          if length keys = 0 then findAll pageable w
          else if \<not> checkKeys keys \<or> \<not> checkEnums sp
          then (Inl (NotFoundException UngueltigeSuchparameter), w)
          else
            (case WhereBuilder_build new_Date sp of
               Inl e \<Rightarrow> (Inl e, w)
             | Inr wh \<Rightarrow>
                 (case prisma_findMany (Some wh) (number pageable * size_p pageable)
                         (size_p pageable) w of
                    (Inl e, w1) \<Rightarrow> (Inl e, w1)
                  | (Inr as, w1) \<Rightarrow>
                      if length as = 0
                      then (Inl (NotFoundException (KeineAutosGefunden sp (number pageable))), w1)
                      else (case AutoService_count w1 of
                              (n, w2) \<Rightarrow> (Inr (createSlice as n), w2)))))"

section \<open>From the DTO to the input of \<open>create\<close>\<close>

text \<open>
  \<open>AutoDtoOhneRef\<close> and \<open>AutoDTO\<close>. A numeric property is a \<open>number\<close>, a \<open>BigNumber\<close> or
  missing; \<open>datum\<close> is missing, \<open>null\<close>, a string or a \<open>Date\<close>. What else the body of a
  request holds is the extension of the record.
\<close>

datatype dto_number = DtoUndefined | DtoNumber jsnumber | DtoBigNumber jsnumber

datatype dto_datum = DatumUndefined | DatumNull | DatumString string | DatumDate jsdate

record ModellDTO =
  modell_dto :: string

record BildDTO =
  beschriftung_dto :: string
  contentType :: string

record AutoDtoOhneRef =
  fgnr_dto :: "string option"
  art_dto :: "autoart option"
  preis_dto :: dto_number
  rabatt_dto :: dto_number
  lieferbar_dto :: "bool option"
  datum_dto :: dto_datum
  schlagwoerter_dto :: "string list option"

record AutoDTO = AutoDtoOhneRef +
  modell_of_dto :: "ModellDTO option"
  bilder_dto :: "BildDTO list option"

text \<open>\<open>Number(x)\<close>\<close>

definition Number_of :: "dto_number \<Rightarrow> jsnumber" where
  "Number_of x = (case x of DtoUndefined \<Rightarrow> NaN | DtoNumber n \<Rightarrow> n | DtoBigNumber n \<Rightarrow> n)"

definition datumValue :: "(jsvalue \<Rightarrow> jsdate) \<Rightarrow> dto_datum \<Rightarrow> jsdate option" where
  "datumValue new_Date d =
     (case d of
        DatumUndefined \<Rightarrow> None
      | DatumNull \<Rightarrow> None
      | DatumString s \<Rightarrow> Some (new_Date (JString s))
      | DatumDate x \<Rightarrow> Some x)"

text \<open>\<open>AutoWriteController.#autoDtoToAutoCreateInput(autoDTO)\<close>\<close>

definition autoDtoToAutoCreateInput ::
    "(jsvalue \<Rightarrow> jsdate) \<Rightarrow> 'a AutoDTO_scheme \<Rightarrow> autoCreateInput" where
  "autoDtoToAutoCreateInput new_Date autoDTO =
     (let bs = (case bilder_dto autoDTO of
                  None \<Rightarrow> []
                | Some l \<Rightarrow> map (\<lambda>bildDTO. (beschriftung_dto bildDTO, contentType bildDTO)) l)
      in \<lparr>cr_version = Some 0,
          cr_fgnr = fgnr_dto autoDTO,
          cr_art = art_dto autoDTO,
          cr_preis = (case preis_dto autoDTO of DtoNumber n \<Rightarrow> n | x \<Rightarrow> Number_of x),
          cr_rabatt = Number_of (case rabatt_dto autoDTO of
                                   DtoUndefined \<Rightarrow> DtoNumber (Num 0)
                                 | x \<Rightarrow> x),
          cr_lieferbar = Some (case lieferbar_dto autoDTO of None \<Rightarrow> False | Some b \<Rightarrow> b),
          cr_datum = datumValue new_Date (datum_dto autoDTO),
          cr_schlagwoerter = Some (case schlagwoerter_dto autoDTO of None \<Rightarrow> [] | Some l \<Rightarrow> l),
          cr_modell = map_option modell_dto (modell_of_dto autoDTO),
          cr_bild = (if length bs = 0 then None else Some bs)\<rparr>)"

text \<open>
  \<open>AutoWriteController.post\<close>: the id \<open>create\<close> returns goes into the header \<open>Location\<close>.
\<close>

definition AutoWriteController_post ::
    "(jsvalue \<Rightarrow> jsdate) \<Rightarrow> 'a AutoDTO_scheme \<Rightarrow> world \<Rightarrow> int result" where
  "AutoWriteController_post new_Date autoDTO w =
     AutoWriteService_create (autoDtoToAutoCreateInput new_Date autoDTO) w"

text \<open>
  \<open>AutoMutationResolver.#autoDtoToAutoCreate(autoDTO)\<close>: \<open>autoDTO.preis.toNumber()\<close> throws a
  \<open>TypeError\<close> unless \<open>preis\<close> is a \<open>BigNumber\<close>.
\<close>

definition autoDtoToAutoCreate ::
    "(jsvalue \<Rightarrow> jsdate) \<Rightarrow> 'a AutoDTO_scheme \<Rightarrow> error + autoCreateInput" where
  "autoDtoToAutoCreate new_Date autoDTO =
     (let bs = (case bilder_dto autoDTO of
                  None \<Rightarrow> []
                | Some l \<Rightarrow> map (\<lambda>b. (beschriftung_dto b, contentType b)) l)
      in case preis_dto autoDTO of
           DtoBigNumber p \<Rightarrow>
             Inr \<lparr>cr_version = Some 0,
                  cr_fgnr = fgnr_dto autoDTO,
                  cr_art = art_dto autoDTO,
                  cr_preis = p,
                  cr_rabatt = Number_of (case rabatt_dto autoDTO of
                                           DtoUndefined \<Rightarrow> DtoNumber (Num 0)
                                         | x \<Rightarrow> x),
                  cr_lieferbar = Some (case lieferbar_dto autoDTO of None \<Rightarrow> False | Some b \<Rightarrow> b),
                  cr_datum = datumValue new_Date (datum_dto autoDTO),
                  cr_schlagwoerter =
                    Some (case schlagwoerter_dto autoDTO of None \<Rightarrow> [] | Some l \<Rightarrow> l),
                  cr_modell = map_option modell_dto (modell_of_dto autoDTO),
                  cr_bild = (if length bs = 0 then None else Some bs)\<rparr>
         | _ \<Rightarrow> Inl TypeError)"

text \<open>\<open>AutoMutationResolver.create\<close>\<close>

definition AutoMutationResolver_create ::
    "(jsvalue \<Rightarrow> jsdate) \<Rightarrow> 'a AutoDTO_scheme \<Rightarrow> world \<Rightarrow> int result" where
  "AutoMutationResolver_create new_Date autoDTO w =
     (case autoDtoToAutoCreate new_Date autoDTO of
        Inl e \<Rightarrow> (Inl e, w)
      | Inr a \<Rightarrow> AutoWriteService_create a w)"

text \<open>
  \<open>AutoUpdateDTO\<close> of the GraphQL resolver: an \<open>AutoDTO\<close> that also carries an id and a
  version.
\<close>

record AutoUpdateDTO = AutoDTO +
  id_dto :: string
  version_dto :: int

section \<open>Sequences of calls and sample data\<close>

text \<open>A sequence of calls of \<open>update\<close>, one after the other, with the result of each.\<close>

fun update_all ::
    "(int option \<times> autoUpdateInput \<times> string) list \<Rightarrow> world \<Rightarrow> (error + int) list \<times> world" where
  "update_all [] w = ([], w)"
| "update_all ((ido, a, v) # cs) w =
     (case AutoWriteService_update ido a v w of
        (res, w1) \<Rightarrow> (case update_all cs w1 of (rs, w2) \<Rightarrow> (res # rs, w2)))"

text \<open>A version in double quotes, as the headers \<open>ETag\<close> and \<open>If-Match\<close> carry it.\<close>

definition quoted :: "string \<Rightarrow> string" where
  "quoted s = dquote # s @ [dquote]"

definition example_row :: auto_row where
  "example_row =
     \<lparr>id_auto = 1000, version = 3, fgnr = ''1-0001-6'', art = Some COUPE, preis = 44990,
      rabatt = 5, lieferbar = True, datum = Some 20120, schlagwoerter = Some [''SPORT'']\<rparr>"

definition other_row :: auto_row where
  "other_row =
     \<lparr>id_auto = 1001, version = 0, fgnr = ''1-0002-6'', art = Some LIMO, preis = 29990,
      rabatt = 10, lieferbar = False, datum = None, schlagwoerter = None\<rparr>"

definition example_world :: world where
  "example_world =
     \<lparr>autos = [example_row, other_row],
      modelle = [\<lparr>id_modell = 1000, modell_name = ''BMW'', modell_auto_id = 1000\<rparr>,
                 \<lparr>id_modell = 1001, modell_name = ''AUDI'', modell_auto_id = 1001\<rparr>],
      bilder = [], files = [],
      seq_auto = 1002, seq_modell = 1002, seq_bild = 1000,
      calls = [], mails = []\<rparr>"

text \<open>The same store with the first row at version 1000.\<close>

definition aged_row :: auto_row where
  "aged_row = example_row\<lparr>version := 1000\<rparr>"

definition aged_world :: world where
  "aged_world = example_world\<lparr>autos := [aged_row, other_row]\<rparr>"

definition example_update :: autoUpdateInput where
  "example_update =
     \<lparr>up_version = None, up_fgnr = Some ''1-0001-6'', up_art = Some (Some KOMBI),
      up_preis = Some (Num 33333), up_rabatt = Some (Num 15), up_lieferbar = Some True,
      up_datum = Some None, up_schlagwoerter = Some [''PUT'', ''TEST'']\<rparr>"

text \<open>An update that moves the row to the chassis number of the other row.\<close>

definition conflicting_update :: autoUpdateInput where
  "conflicting_update = example_update\<lparr>up_fgnr := Some ''1-0002-6''\<rparr>"

definition example_Date :: "jsvalue \<Rightarrow> jsdate" where
  "example_Date v = (if v = JString ''2025-02-01'' then Some 20120 else None)"

text \<open>The body of a request that also carries an id and the version 7.\<close>

definition example_dto :: AutoUpdateDTO where
  "example_dto =
     \<lparr>fgnr_dto = Some ''1-0100-6'', art_dto = Some COUPE, preis_dto = DtoBigNumber (Num 44990),
      rabatt_dto = DtoBigNumber (Num 5), lieferbar_dto = Some True,
      datum_dto = DatumString ''2025-02-01'', schlagwoerter_dto = Some [''SPORT''],
      modell_of_dto = Some \<lparr>modell_dto = ''TESTMODELL''\<rparr>, bilder_dto = None,
      id_dto = ''1'', version_dto = 7\<rparr>"

definition example_create :: autoCreateInput where
  "example_create = autoDtoToAutoCreateInput example_Date example_dto"

text \<open>Search parameters: a prefix of a chassis number, and the first page of five.\<close>

definition example_filter :: jsobject where
  "example_filter = [(''fgnr'', JString ''1-0001'')]"

definition example_page :: Pageable where
  "example_page = \<lparr>number = 0, size_p = 5\<rparr>"

definition example_where :: autoWhereInput where
  "example_where = empty_where\<lparr>where_fgnr := Some (StartsWith (JString ''1-0001''))\<rparr>"

text \<open>Search parameters with a price that is no number and a discount that starts with one.\<close>

definition numeric_filter :: jsobject where
  "numeric_filter =
     [(''preis'', JString ''abc''), (''modell'', JString ''bm''), (''rabatt'', JString ''12abc'')]"

section \<open>Properties\<close>

subsection \<open>The version token\<close>

lemma is_digit_not_dquote: "\<not> is_digit dquote"
  by (simp add: is_digit_def dquote_def)

lemma is_digit_not_ws: "is_digit c \<Longrightarrow> \<not> is_white_space c"
  by (auto simp: is_digit_def is_white_space_def)

lemma is_digit_not_sign: "is_digit c \<Longrightarrow> c \<noteq> CHR ''-'' \<and> c \<noteq> CHR ''+''"
  by (auto simp: is_digit_def)

lemma regex_test_Lit:
  "regex_test (Lit c # as) s \<longleftrightarrow> (\<exists>r. s = c # r \<and> regex_test as r)"
  by (cases s) auto

lemma regex_test_Digits:
  "regex_test (Digits lo hi # as) s \<longleftrightarrow>
     (\<exists>k. lo \<le> k \<and> k \<le> hi \<and> k \<le> length s \<and> list_all is_digit (take k s) \<and>
          regex_test as (drop k s))"
  by (auto simp: list_ex_iff)

text \<open>
  The tokens the pattern lets through: a double quote, one to three digits, a double
  quote, and then anything.
\<close>

lemma VERSION_PATTERN_iff:
  "regex_test VERSION_PATTERN s \<longleftrightarrow>
     (\<exists>ds rest. s = dquote # ds @ dquote # rest \<and> ds \<noteq> [] \<and> length ds \<le> 3 \<and>
                list_all is_digit ds)"
  (is "?L \<longleftrightarrow> ?R")
proof
  assume ?L
  then obtain xs where s: "s = dquote # xs"
    and ex: "\<exists>k. 1 \<le> k \<and> k \<le> 3 \<and> k \<le> length xs \<and> list_all is_digit (take k xs) \<and>
                (\<exists>r. drop k xs = dquote # r)"
    unfolding VERSION_PATTERN_def regex_test_Lit regex_test_Digits by auto
  then obtain k r where k: "1 \<le> k \<and> k \<le> 3" "k \<le> length xs" "list_all is_digit (take k xs)"
      "drop k xs = dquote # r" by blast
  have "xs = take k xs @ dquote # r" using k(4) by (metis append_take_drop_id)
  moreover have "take k xs \<noteq> []" using k(1,2) by auto
  moreover have "length (take k xs) \<le> 3" using k(1) by auto
  ultimately show ?R using s k(3) by blast
next
  assume ?R
  then obtain ds rest where s: "s = dquote # ds @ dquote # rest" and ne: "ds \<noteq> []"
    and le: "length ds \<le> 3" and dg: "list_all is_digit ds" by blast
  from ne have "1 \<le> length ds" by (cases ds) auto
  with le show ?L using s dg
    unfolding VERSION_PATTERN_def regex_test_Lit regex_test_Digits
    by (auto intro!: exI[of _ "length ds"])
qed

lemma digits_value_snoc: "digits_value (ds @ [c]) = 10 * digits_value ds + digit_value c"
  by (simp add: digits_value_def)

lemma digits_value_bounds:
  "list_all is_digit ds \<Longrightarrow> 0 \<le> digits_value ds \<and> digits_value ds < 10 ^ length ds"
proof (induction ds rule: rev_induct)
  case Nil
  then show ?case by (simp add: digits_value_def)
next
  case (snoc c ds)
  then have d: "0 \<le> digit_value c \<and> digit_value c \<le> 9"
    by (auto simp: is_digit_def digit_value_def)
  from snoc have "0 \<le> digits_value ds \<and> digits_value ds < 10 ^ length ds" by simp
  then show ?case using d by (simp add: digits_value_snoc)
qed

lemma js_slice_quoted:
  "js_slice (dquote # ds @ dquote # rest) 1 (- 1) = ds @ butlast (dquote # rest)"
proof -
  have "nat (int (length ds) + int (length rest)) - length ds = length rest" by simp
  then show ?thesis
    by (simp add: js_slice_def butlast_conv_take del: butlast.simps)
qed

lemma parseInt_digits:
  assumes "ds \<noteq> []" "list_all is_digit ds" "t = [] \<or> \<not> is_digit (hd t)"
  shows "parseInt (ds @ t) = Some (digits_value ds)"
proof -
  obtain c cs where ds: "ds = c # cs" using assms(1) by (cases ds) auto
  have c: "is_digit c" using assms(2) ds by simp
  have tw: "takeWhile is_digit (ds @ t) = ds"
    using assms(2,3) by (cases t) (auto simp: takeWhile_append2 list_all_iff takeWhile_eq_all_conv)
  have dw: "dropWhile is_white_space (ds @ t) = ds @ t"
    using c ds is_digit_not_ws by simp
  show ?thesis
    using is_digit_not_sign[OF c] tw assms(1)
    unfolding parseInt_def dw Let_def by (simp add: ds)
qed

text \<open>The claimed version of a token that passed the pattern is the value of its digits.\<close>

lemma claimed_version:
  assumes "ds \<noteq> []" "list_all is_digit ds"
  shows "parseInt (js_slice (dquote # ds @ dquote # rest) 1 (- 1)) = Some (digits_value ds)"
proof -
  have "butlast (dquote # rest) = [] \<or> \<not> is_digit (hd (butlast (dquote # rest)))"
    using is_digit_not_dquote by (cases rest) auto
  then show ?thesis unfolding js_slice_quoted by (rule parseInt_digits[OF assms(1,2)])
qed

lemma claimed_at_most_999:
  assumes "regex_test VERSION_PATTERN v"
  shows "\<exists>n. parseInt (js_slice v 1 (- 1)) = Some n \<and> 0 \<le> n \<and> n \<le> 999"
proof -
  from assms obtain ds rest where v: "v = dquote # ds @ dquote # rest" and ne: "ds \<noteq> []"
    and le: "length ds \<le> 3" and dg: "list_all is_digit ds"
    unfolding VERSION_PATTERN_iff by blast
  have "digits_value ds < 10 ^ length ds" "0 \<le> digits_value ds"
    using digits_value_bounds[OF dg] by simp_all
  moreover have "(10::int) ^ length ds \<le> 10 ^ 3" using le by (intro power_increasing) simp_all
  ultimately have "digits_value ds \<le> 999" "0 \<le> digits_value ds" by simp_all
  then show ?thesis using claimed_version[OF ne dg, of rest] v by simp
qed

subsection \<open>Reading by id and validating an update\<close>

lemma autos_log_call [simp]: "autos (log_call c w) = autos w"
  by (simp add: log_call_def)

lemma int32_sint: "int32 (sint (x :: 32 word))"
  using sint_ge[of x] sint_lt[of x] by (simp add: int32_def)

lemma sint_word_of_int32: "int32 i \<Longrightarrow> sint (word_of_int i :: 32 word) = i"
  by (simp add: int32_def sint_sbintrunc' signed_take_bit_int_eq_self)

text \<open>The id of a stored row fits the column.\<close>

lemma find_int32: "find (\<lambda>r. sint (id_auto r) = i) xs = Some r \<Longrightarrow> int32 i"
  using int32_sint by (auto simp: find_Some_iff)

lemma prisma_findUnique_found:
  "find (\<lambda>r. sint (id_auto r) = i) (autos w) = Some r \<Longrightarrow>
   prisma_findUnique i w = (Inr (Some r), log_call (CallFindUnique i) w)"
  by (simp add: prisma_findUnique_def Let_def find_int32)

lemma prisma_findUnique_missing:
  "find (\<lambda>r. sint (id_auto r) = i) (autos w) = None \<Longrightarrow> int32 i \<Longrightarrow>
   prisma_findUnique i w = (Inr None, log_call (CallFindUnique i) w)"
  by (simp add: prisma_findUnique_def Let_def)

lemma prisma_findUnique_out_of_range:
  "\<not> int32 i \<Longrightarrow>
   prisma_findUnique i w = (Inl (PrismaError ValueOutOfRange), log_call (CallFindUnique i) w)"
  by (simp add: prisma_findUnique_def Let_def)

lemma findById_found:
  "find (\<lambda>r. sint (id_auto r) = i) (autos w) = Some r \<Longrightarrow>
   AutoService_findById i b w =
     (Inr (include_rel b (log_call (CallFindUnique i) w)
            (r\<lparr>schlagwoerter := (case schlagwoerter r of None \<Rightarrow> Some [] | Some l \<Rightarrow> Some l)\<rparr>)),
      log_call (CallFindUnique i) w)"
  by (simp add: AutoService_findById_def prisma_findUnique_found)

lemma findById_missing:
  "find (\<lambda>r. sint (id_auto r) = i) (autos w) = None \<Longrightarrow> int32 i \<Longrightarrow>
   AutoService_findById i b w =
     (Inl (NotFoundException (KeinAutoMitId (Some i))), log_call (CallFindUnique i) w)"
  by (simp add: AutoService_findById_def prisma_findUnique_missing)

lemma validateUpdate_invalid:
  "\<not> regex_test VERSION_PATTERN v \<Longrightarrow>
   validateUpdate i v w = (Inl (VersionInvalidException v), w)"
  by (simp add: validateUpdate_def)

lemma validateUpdate_found:
  assumes "find (\<lambda>r. sint (id_auto r) = i) (autos w) = Some r" "regex_test VERSION_PATTERN v"
    "parseInt (js_slice v 1 (- 1)) = Some n"
  shows "validateUpdate i v w =
           (if n < version r then Inl (VersionOutdatedException n) else Inr (),
            log_call (CallFindUnique i) w)"
  using assms by (simp add: validateUpdate_def findById_found include_rel_def)

text \<open>
  A token the pattern rejects ends \<open>update\<close> with \<open>VersionInvalidException\<close>, and the world
  is the one before the call: no call of the Prisma client has been made.
\<close>

lemma update_invalid_token:
  "\<not> regex_test VERSION_PATTERN v \<Longrightarrow>
   AutoWriteService_update (Some i) a v w = (Inl (VersionInvalidException v), w)"
  by (simp add: AutoWriteService_update_def validateUpdate_invalid)

lemma find_map_replace:
  "find (\<lambda>x. sint (id_auto x) = i) xs = Some r \<Longrightarrow> sint (id_auto r') = i \<Longrightarrow>
   find (\<lambda>x. sint (id_auto x) = i) (map (\<lambda>x. if sint (id_auto x) = i then r' else x) xs) = Some r'"
  by (induction xs) (auto split: if_splits)

lemma find_map_other:
  "j \<noteq> i \<Longrightarrow> sint (id_auto r') = j \<Longrightarrow>
   find (\<lambda>x. sint (id_auto x) = i) (map (\<lambda>x. if sint (id_auto x) = j then r' else x) xs)
     = find (\<lambda>x. sint (id_auto x) = i) xs"
  by (induction xs) auto

lemma id_auto_apply_update [simp]: "id_auto (apply_update d r) = id_auto r"
  by (simp add: apply_update_def)

lemma version_apply_update_inc [simp]:
  "version (apply_update (a\<lparr>up_version := Some (Increment k)\<rparr>) r) = version r + k"
  by (simp add: apply_update_def)

lemma valid_update_version [simp]: "valid_update (a\<lparr>up_version := x\<rparr>) = valid_update a"
  by (simp add: valid_update_def)

lemma find_Some_id: "find (\<lambda>x. sint (id_auto x) = i) xs = Some r \<Longrightarrow> sint (id_auto r) = i"
  by (auto simp: find_Some_iff)

lemma prisma_update_ok:
  assumes "find (\<lambda>r. sint (id_auto r) = i) (autos w) = Some r" "valid_update a"
    "check_row (apply_update a r) (filter (\<lambda>x. sint (id_auto x) \<noteq> i) (autos w)) = None"
  shows "transaction (prisma_update i a) w =
           (Inr (apply_update a r),
            (log_call (CallUpdate i) w)
              \<lparr>autos := map (\<lambda>x. if sint (id_auto x) = i then apply_update a r else x) (autos w)\<rparr>)"
  using assms find_int32[OF assms(1)] by (simp add: transaction_def prisma_update_def Let_def)

subsection \<open>Facts about the sample data\<close>

lemma example_found: "find (\<lambda>r. sint (id_auto r) = 1000) (autos example_world) = Some example_row"
  by (simp add: example_world_def example_row_def)

lemma aged_found: "find (\<lambda>r. sint (id_auto r) = 1000) (autos aged_world) = Some aged_row"
  by (simp add: aged_world_def aged_row_def example_row_def)

lemma token_2: "regex_test VERSION_PATTERN (quoted ''2'')"
  by code_simp

lemma token_2_value: "parseInt (js_slice (quoted ''2'') 1 (- 1)) = Some 2"
  by code_simp

lemma token_3: "regex_test VERSION_PATTERN (quoted ''3'')"
  by code_simp

lemma token_3_value: "parseInt (js_slice (quoted ''3'') 1 (- 1)) = Some 3"
  by code_simp

lemma example_update_valid: "valid_update example_update"
  by (simp add: valid_update_def example_update_def valid_decimal_def valid_int_def
      valid_date_def)

lemma example_update_accepted:
  "check_row (apply_update (example_update\<lparr>up_version := Some (Increment 1)\<rparr>) example_row)
     (filter (\<lambda>x. sint (id_auto x) \<noteq> 1000) (autos example_world)) = None"
  by (simp add: check_row_def apply_update_def example_update_def example_row_def
      example_world_def other_row_def num_value_def round2_def)

subsection \<open>Claims about \<open>update\<close>\<close>

text \<open>
  C2. The claim reads: the version token is accepted only when it is exactly a double
  quote, one to three digits and a double quote, with nothing before or after. The
  pattern \<open>/^"\d{1,3}"/u\<close> has no anchor at its end: the token \<open>"3"xyz\<close> passes it, its claimed
  version is read as 3, and the update of the row at version 3 goes through and returns
  the new version 4.
\<close>

theorem version_token_with_trailing_text_accepted:
  "regex_test VERSION_PATTERN (quoted ''3'' @ ''xyz'') \<and>
   parseInt (js_slice (quoted ''3'' @ ''xyz'') 1 (- 1)) = Some 3 \<and>
   fst (AutoWriteService_update (Some 1000) example_update (quoted ''3'' @ ''xyz'') example_world)
     = Inr 4"
  by code_simp

text \<open>
  C3. An update of an existing row with a token that passes the pattern and whose
  claimed version is below the stored version ends with \<open>VersionOutdatedException\<close>; the
  only effect is the one read of the row, and the row, with its version, is the one
  stored before. A claimed version that is not below the stored version passes
  \<open>#validateUpdate\<close>.
\<close>

theorem update_version_outdated:
  assumes "find (\<lambda>r. sint (id_auto r) = i) (autos w) = Some r"
    and "regex_test VERSION_PATTERN v"
    and "parseInt (js_slice v 1 (- 1)) = Some n"
  shows "(n < version r \<longrightarrow>
            AutoWriteService_update (Some i) a v w =
              (Inl (VersionOutdatedException n), log_call (CallFindUnique i) w) \<and>
            find (\<lambda>r. sint (id_auto r) = i) (autos (snd (AutoWriteService_update (Some i) a v w)))
              = Some r) \<and>
         (version r \<le> n \<longrightarrow> fst (validateUpdate i v w) = Inr ())"
  using assms by (simp add: AutoWriteService_update_def validateUpdate_found)

theorem update_version_outdated_witness:
  "AutoWriteService_update (Some 1000) example_update (quoted ''2'') example_world =
     (Inl (VersionOutdatedException 2), log_call (CallFindUnique 1000) example_world) \<and>
   find (\<lambda>r. sint (id_auto r) = 1000)
     (autos (snd (AutoWriteService_update (Some 1000) example_update (quoted ''2'') example_world)))
     = Some example_row \<and>
   fst (validateUpdate 1000 (quoted ''3'') example_world) = Inr ()"
proof -
  have v: "version example_row = 3" by (simp add: example_row_def)
  show ?thesis
    using update_version_outdated[OF example_found token_2 token_2_value, of example_update]
          update_version_outdated[OF example_found token_3 token_3_value, of example_update]
    by (simp add: v example_found)
qed

text \<open>
  C4, as claimed: every update of an existing row with a valid token whose claimed version
  is at least the stored version succeeds. It does not when the store rejects the new
  values: the update below moves the row to the chassis number of another row, the token
  \<open>"3"\<close> matches the stored version 3, and the call ends with the error of the unique
  constraint.
\<close>

theorem update_rejected_by_store_counterexample:
  "find (\<lambda>r. sint (id_auto r) = 1000) (autos example_world) = Some example_row \<and>
   regex_test VERSION_PATTERN (quoted ''3'') \<and>
   parseInt (js_slice (quoted ''3'') 1 (- 1)) = Some 3 \<and>
   version example_row \<le> 3 \<and>
   fst (AutoWriteService_update (Some 1000) conflicting_update (quoted ''3'') example_world)
     = Inl (PrismaError UniqueConstraintViolation)"
  by code_simp

text \<open>
  C4, amended: when in addition the new values are well typed and the row they give
  satisfies the constraints of the table, the update succeeds, the stored version is the
  previous one plus 1, and that version is returned.
\<close>

theorem update_increments_version:
  assumes found: "find (\<lambda>r. sint (id_auto r) = i) (autos w) = Some r"
    and valid: "regex_test VERSION_PATTERN v"
    and claimed: "parseInt (js_slice v 1 (- 1)) = Some n"
    and ge: "version r \<le> n"
    and typed: "valid_update a"
    and accepted: "check_row (apply_update (a\<lparr>up_version := Some (Increment 1)\<rparr>) r)
                     (filter (\<lambda>x. sint (id_auto x) \<noteq> i) (autos w)) = None"
  shows "fst (AutoWriteService_update (Some i) a v w) = Inr (version r + 1) \<and>
         map_option version
           (find (\<lambda>x. sint (id_auto x) = i) (autos (snd (AutoWriteService_update (Some i) a v w))))
           = Some (version r + 1)"
proof -
  let ?a = "a\<lparr>up_version := Some (Increment 1)\<rparr>"
  let ?w1 = "log_call (CallFindUnique i) w"
  have v: "validateUpdate i v w = (Inr (), ?w1)"
    using validateUpdate_found[OF found valid claimed] ge by simp
  have t: "transaction (prisma_update i ?a) ?w1 =
             (Inr (apply_update ?a r),
              (log_call (CallUpdate i) ?w1)
                \<lparr>autos := map (\<lambda>x. if sint (id_auto x) = i then apply_update ?a r else x) (autos ?w1)\<rparr>)"
    by (rule prisma_update_ok) (use found typed accepted in simp_all)
  have u: "AutoWriteService_update (Some i) a v w =
             (Inr (version r + 1),
              (log_call (CallUpdate i) ?w1)
                \<lparr>autos := map (\<lambda>x. if sint (id_auto x) = i then apply_update ?a r else x) (autos w)\<rparr>)"
    by (simp add: AutoWriteService_update_def v t)
  have "find (\<lambda>x. sint (id_auto x) = i)
          (map (\<lambda>x. if sint (id_auto x) = i then apply_update ?a r else x) (autos w))
          = Some (apply_update ?a r)"
    by (rule find_map_replace[OF found]) (simp add: find_Some_id[OF found])
  then show ?thesis by (simp add: u)
qed

theorem update_increments_version_witness:
  "fst (AutoWriteService_update (Some 1000) example_update (quoted ''3'') example_world) = Inr 4 \<and>
   map_option version
     (find (\<lambda>x. sint (id_auto x) = 1000)
        (autos (snd (AutoWriteService_update (Some 1000) example_update (quoted ''3'')
                       example_world)))) = Some 4"
proof -
  have v: "version example_row = 3" by (simp add: example_row_def)
  show ?thesis
    using update_increments_version[OF example_found token_3 token_3_value _
            example_update_valid example_update_accepted]
    by (simp add: v)
qed

subsection \<open>A row at version 1000\<close>

lemma update_step_1000:
  assumes found: "find (\<lambda>r. sint (id_auto r) = i) (autos w) = Some r" and big: "1000 \<le> version r"
  shows "AutoWriteService_update (Some i) a v w = (Inl (VersionInvalidException v), w) \<or>
         (\<exists>n. n \<le> 999 \<and>
              AutoWriteService_update (Some i) a v w =
                (Inl (VersionOutdatedException n), log_call (CallFindUnique i) w))"
proof (cases "regex_test VERSION_PATTERN v")
  case False
  then show ?thesis by (simp add: update_invalid_token)
next
  case True
  from claimed_at_most_999[OF True] obtain n
    where n: "parseInt (js_slice v 1 (- 1)) = Some n" "n \<le> 999" by blast
  then have "n < version r" using big by simp
  then show ?thesis
    using n validateUpdate_found[OF found True n(1)]
    by (auto simp: AutoWriteService_update_def)
qed

lemma prisma_update_autos:
  "autos (snd (transaction (prisma_update j d) w)) = autos w \<or>
   (\<exists>r. find (\<lambda>x. sint (id_auto x) = j) (autos w) = Some r \<and>
        autos (snd (transaction (prisma_update j d) w)) =
          map (\<lambda>x. if sint (id_auto x) = j then apply_update d r else x) (autos w))"
  by (auto simp: transaction_def prisma_update_def Let_def log_call_def split: option.splits)

lemma validateUpdate_autos: "autos (snd (validateUpdate j v w)) = autos w"
  by (auto simp: validateUpdate_def AutoService_findById_def prisma_findUnique_def Let_def
           split: option.splits)

text \<open>An update of another row, or without an id, leaves the row as it is.\<close>

lemma update_other_row:
  assumes "ido \<noteq> Some i"
  shows "find (\<lambda>r. sint (id_auto r) = i) (autos (snd (AutoWriteService_update ido a v w)))
           = find (\<lambda>r. sint (id_auto r) = i) (autos w)"
proof (cases ido)
  case None
  then show ?thesis by (simp add: AutoWriteService_update_def)
next
  case (Some j)
  with assms have ji: "j \<noteq> i" by simp
  obtain res w1 where vu: "validateUpdate j v w = (res, w1)" by (cases "validateUpdate j v w")
  have w1: "autos w1 = autos w" using validateUpdate_autos[of j v w] vu by simp
  show ?thesis
  proof (cases res)
    case (Inl e)
    then show ?thesis using Some vu w1 by (simp add: AutoWriteService_update_def)
  next
    case (Inr u)
    let ?d = "a\<lparr>up_version := Some (Increment 1)\<rparr>"
    have eq: "autos (snd (AutoWriteService_update ido a v w))
                = autos (snd (transaction (prisma_update j ?d) w1))"
      using Some vu Inr by (auto simp: AutoWriteService_update_def split: prod.splits sum.splits)
    from prisma_update_autos[of j ?d w1] show ?thesis
    proof
      assume "autos (snd (transaction (prisma_update j ?d) w1)) = autos w1"
      then show ?thesis using eq w1 by simp
    next
      assume "\<exists>r. find (\<lambda>x. sint (id_auto x) = j) (autos w1) = Some r \<and>
        autos (snd (transaction (prisma_update j ?d) w1)) =
          map (\<lambda>x. if sint (id_auto x) = j then apply_update ?d r else x) (autos w1)"
      then obtain r where r: "find (\<lambda>x. sint (id_auto x) = j) (autos w1) = Some r"
        "autos (snd (transaction (prisma_update j ?d) w1)) =
          map (\<lambda>x. if sint (id_auto x) = j then apply_update ?d r else x) (autos w1)" by blast
      have "sint (id_auto (apply_update ?d r)) = j" using find_Some_id[OF r(1)] by simp
      from find_map_other[OF ji this] show ?thesis using eq r(2) w1 by simp
    qed
  qed
qed

lemma update_keeps_1000:
  assumes found: "find (\<lambda>r. sint (id_auto r) = i) (autos w) = Some r" and big: "1000 \<le> version r"
  shows "find (\<lambda>r. sint (id_auto r) = i) (autos (snd (AutoWriteService_update ido a v w))) = Some r"
proof (cases "ido = Some i")
  case True
  then show ?thesis using update_step_1000[OF found big, of a v] found by auto
next
  case False
  then show ?thesis using update_other_row[OF False] found by simp
qed

text \<open>
  C10. Let a row have a stored version of at least 1000. Whatever sequence of calls of
  \<open>update\<close> is made, with whatever ids, values and tokens: every call for that row ends
  with \<open>VersionInvalidException\<close> or with \<open>VersionOutdatedException\<close> for a claimed version
  of at most 999, and after all the calls the row is the one stored at the start.
\<close>

theorem no_update_from_1000:
  assumes "find (\<lambda>r. sint (id_auto r) = i) (autos w) = Some r" and "1000 \<le> version r"
  shows "find (\<lambda>r. sint (id_auto r) = i) (autos (snd (update_all cs w))) = Some r \<and>
         (\<forall>k < length cs. fst (cs ! k) = Some i \<longrightarrow>
            fst (update_all cs w) ! k = Inl (VersionInvalidException (snd (snd (cs ! k)))) \<or>
            (\<exists>n. n \<le> 999 \<and> fst (update_all cs w) ! k = Inl (VersionOutdatedException n)))"
  using assms
proof (induction cs arbitrary: w)
  case Nil
  then show ?case by simp
next
  case (Cons c cs)
  obtain ido a v where c: "c = (ido, a, v)" by (cases c)
  obtain res w1 where u: "AutoWriteService_update ido a v w = (res, w1)"
    by (cases "AutoWriteService_update ido a v w")
  obtain rs w2 where ua: "update_all cs w1 = (rs, w2)" by (cases "update_all cs w1")
  have keep: "find (\<lambda>r. sint (id_auto r) = i) (autos w1) = Some r"
    using update_keeps_1000[OF Cons.prems, of ido a v] u by simp
  note ih = Cons.IH[OF keep Cons.prems(2)]
  have head: "ido = Some i \<Longrightarrow> res = Inl (VersionInvalidException v) \<or>
                (\<exists>n. n \<le> 999 \<and> res = Inl (VersionOutdatedException n))"
    using update_step_1000[OF Cons.prems, of a v] u by auto
  show ?case
  proof (intro conjI allI impI)
    show "find (\<lambda>r. sint (id_auto r) = i) (autos (snd (update_all (c # cs) w))) = Some r"
      using ih ua u c by simp
  next
    fix k assume k: "k < length (c # cs)" and t: "fst ((c # cs) ! k) = Some i"
    show "fst (update_all (c # cs) w) ! k
            = Inl (VersionInvalidException (snd (snd ((c # cs) ! k)))) \<or>
          (\<exists>n. n \<le> 999 \<and> fst (update_all (c # cs) w) ! k = Inl (VersionOutdatedException n))"
    proof (cases k)
      case 0
      then show ?thesis using head t c u ua by simp
    next
      case (Suc k')
      then show ?thesis using ih k t c u ua by simp
    qed
  qed
qed

theorem no_update_from_1000_witness:
  "find (\<lambda>r. sint (id_auto r) = 1000)
     (autos (snd (update_all [(Some 1000, example_update, quoted ''999''),
                              (Some 1001, example_update, quoted ''0''),
                              (Some 1000, example_update, ''abc'')] aged_world)))
     = Some aged_row \<and>
   fst (update_all [(Some 1000, example_update, quoted ''999''),
                    (Some 1001, example_update, quoted ''0''),
                    (Some 1000, example_update, ''abc'')] aged_world) ! 0
     = Inl (VersionOutdatedException 999) \<and>
   fst (update_all [(Some 1000, example_update, quoted ''999''),
                    (Some 1001, example_update, quoted ''0''),
                    (Some 1000, example_update, ''abc'')] aged_world) ! 2
     = Inl (VersionInvalidException ''abc'')"
proof -
  have big: "1000 \<le> version aged_row" by (simp add: aged_row_def)
  have r0: "fst (update_all [(Some 1000, example_update, quoted ''999''),
                    (Some 1001, example_update, quoted ''0''),
                    (Some 1000, example_update, ''abc'')] aged_world) ! 0
     = Inl (VersionOutdatedException 999)" by code_simp
  have r2: "fst (update_all [(Some 1000, example_update, quoted ''999''),
                    (Some 1001, example_update, quoted ''0''),
                    (Some 1000, example_update, ''abc'')] aged_world) ! 2
     = Inl (VersionInvalidException ''abc'')" by code_simp
  show ?thesis
    using no_update_from_1000[OF aged_found big,
            of "[(Some 1000, example_update, quoted ''999''),
                 (Some 1001, example_update, quoted ''0''),
                 (Some 1000, example_update, ''abc'')]"] r0 r2
    by blast
qed

subsection \<open>Claims about \<open>create\<close>\<close>

text \<open>
  C6. A call of \<open>create\<close> whose chassis number is that of a stored row ends with
  \<open>FgnrExistsException\<close> for that chassis number. The world afterwards is the one before
  with the one count recorded: no row is written and no mail is sent.
\<close>

theorem create_fgnr_exists:
  assumes "cr_fgnr a = Some f" and "list_ex (\<lambda>r. fgnr r = f) (autos w)"
  shows "AutoWriteService_create a w =
           (Inl (FgnrExistsException f), log_call (CallCountFgnr f) w) \<and>
         autos (snd (AutoWriteService_create a w)) = autos w"
proof -
  from assms(2) have "filter (\<lambda>r. fgnr r = f) (autos w) \<noteq> []"
    by (auto simp: list_ex_iff filter_empty_conv)
  then have "0 < length (filter (\<lambda>r. fgnr r = f) (autos w))" by simp
  then show ?thesis
    using assms(1)
    by (simp add: AutoWriteService_create_def validateCreate_def prisma_count_fgnr_def)
qed

theorem create_fgnr_exists_witness:
  "AutoWriteService_create (example_create\<lparr>cr_fgnr := Some ''1-0001-6''\<rparr>) example_world =
     (Inl (FgnrExistsException ''1-0001-6''), log_call (CallCountFgnr ''1-0001-6'') example_world) \<and>
   autos (snd (AutoWriteService_create (example_create\<lparr>cr_fgnr := Some ''1-0001-6''\<rparr>)
                 example_world)) = autos example_world"
proof -
  have h: "list_ex (\<lambda>r. fgnr r = ''1-0001-6'') (autos example_world)"
    by (simp add: example_world_def example_row_def)
  show ?thesis
    using create_fgnr_exists[of "example_create\<lparr>cr_fgnr := Some ''1-0001-6''\<rparr>" "''1-0001-6''",
            OF _ h]
    by simp
qed

lemma find_append_new:
  "\<not> list_ex (\<lambda>x. sint (id_auto x) = i) xs \<Longrightarrow> sint (id_auto r) = i \<Longrightarrow>
   find (\<lambda>x. sint (id_auto x) = i) (xs @ [r]) = Some r"
  by (induction xs) auto

lemma prisma_create_Inr:
  assumes "transaction (prisma_create a) w = (Inr c, w')"
  shows "sint (id_auto (auto c)) = seq_auto w \<and>
         find (\<lambda>x. sint (id_auto x) = seq_auto w) (autos w') = Some (new_row (seq_auto w) a)"
proof -
  have v: "valid_create a" using assms
    by (auto simp: transaction_def prisma_create_def Let_def split: if_splits)
  have chk: "check_row (new_row (seq_auto w) a) (autos w) = None" using assms v
    by (auto simp: transaction_def prisma_create_def Let_def log_call_def
             split: if_splits option.splits)
  have rng: "int32 (seq_auto w)" using assms v
    by (auto simp: transaction_def prisma_create_def Let_def log_call_def split: if_splits)
  have "\<not> list_ex (\<lambda>x. id_auto x = word_of_int (seq_auto w)) (autos w)"
    using chk by (auto simp: check_row_def new_row_def split: if_splits)
  moreover have "id_auto x = word_of_int (seq_auto w)"
    if "sint (id_auto x) = seq_auto w" for x :: auto_row
    using that of_int_sint[of "id_auto x", where 'a = "32 word"] by simp
  ultimately have nopk: "\<not> list_ex (\<lambda>x. sint (id_auto x) = seq_auto w) (autos w)"
    by (auto simp: list_ex_iff)
  have "autos w' = autos w @ [new_row (seq_auto w) a] \<and> auto c = new_row (seq_auto w) a"
    using assms v chk rng
    by (auto simp: transaction_def prisma_create_def Let_def log_call_def include_rel_def
             split: if_splits option.splits)
  then show ?thesis using find_append_new[OF nopk, of "new_row (seq_auto w) a"]
    by (simp add: new_row_def sint_word_of_int32[OF rng])
qed

text \<open>After a successful \<open>create\<close> the row with the returned id is the row made from the input.\<close>

lemma create_Inr:
  assumes "AutoWriteService_create a w = (Inr i, w')"
  shows "find (\<lambda>x. sint (id_auto x) = i) (autos w') = Some (new_row i a)"
proof -
  obtain w1 where v: "validateCreate a w = (Inr (), w1)"
    and aw: "autos w1 = autos w" "seq_auto w1 = seq_auto w"
    using assms
    by (auto simp: AutoWriteService_create_def validateCreate_def prisma_count_fgnr_def
          log_call_def split: option.splits if_splits prod.splits sum.splits)
  obtain c w2 where t: "transaction (prisma_create a) w1 = (Inr c, w2)"
    and i: "i = sint (id_auto (auto c))" and w': "autos w' = autos w2"
    using assms v
    by (auto simp: AutoWriteService_create_def sendmail_def split: prod.splits sum.splits)
  from prisma_create_Inr[OF t] show ?thesis using i w' by simp
qed

lemma version_new_row: "version (new_row i a) = (case cr_version a of None \<Rightarrow> 0 | Some v \<Rightarrow> v)"
  by (simp add: new_row_def)

text \<open>
  C5. Whatever the body of the request holds, also in properties the DTO does not
  declare: when \<open>AutoWriteController.post\<close> or \<open>AutoMutationResolver.create\<close> returns an id,
  the row stored under that id has version 0.
\<close>

theorem create_version_zero:
  "(fst (AutoWriteController_post nd dto w) = Inr i \<longrightarrow>
      map_option version
        (find (\<lambda>x. sint (id_auto x) = i) (autos (snd (AutoWriteController_post nd dto w)))) = Some 0) \<and>
   (fst (AutoMutationResolver_create nd dto w) = Inr i \<longrightarrow>
      map_option version
        (find (\<lambda>x. sint (id_auto x) = i) (autos (snd (AutoMutationResolver_create nd dto w))))
        = Some 0)"
proof (intro conjI impI)
  assume a: "fst (AutoWriteController_post nd dto w) = Inr i"
  then have "AutoWriteService_create (autoDtoToAutoCreateInput nd dto) w
               = (Inr i, snd (AutoWriteController_post nd dto w))"
    by (simp add: AutoWriteController_post_def prod_eq_iff)
  from create_Inr[OF this]
  show "map_option version
        (find (\<lambda>x. sint (id_auto x) = i) (autos (snd (AutoWriteController_post nd dto w)))) = Some 0"
    by (auto simp: version_new_row autoDtoToAutoCreateInput_def Let_def)
next
  assume a: "fst (AutoMutationResolver_create nd dto w) = Inr i"
  then obtain inp where m: "autoDtoToAutoCreate nd dto = Inr inp"
    by (auto simp: AutoMutationResolver_create_def split: sum.splits)
  then have z: "cr_version inp = Some 0"
    by (auto simp: autoDtoToAutoCreate_def Let_def split: dto_number.splits)
  from a m have "AutoWriteService_create inp w
                   = (Inr i, snd (AutoMutationResolver_create nd dto w))"
    by (simp add: AutoMutationResolver_create_def prod_eq_iff)
  from create_Inr[OF this]
  show "map_option version
        (find (\<lambda>x. sint (id_auto x) = i) (autos (snd (AutoMutationResolver_create nd dto w))))
        = Some 0"
    by (auto simp: version_new_row z)
qed

theorem create_version_zero_witness:
  "version_dto example_dto = 7 \<and>
   fst (AutoWriteController_post example_Date example_dto example_world) = Inr 1002 \<and>
   map_option version
     (find (\<lambda>x. sint (id_auto x) = 1002)
        (autos (snd (AutoWriteController_post example_Date example_dto example_world))))
     = Some 0 \<and>
   fst (AutoMutationResolver_create example_Date example_dto example_world) = Inr 1002 \<and>
   map_option version
     (find (\<lambda>x. sint (id_auto x) = 1002)
        (autos (snd (AutoMutationResolver_create example_Date example_dto example_world))))
     = Some 0"
proof -
  have v: "version_dto example_dto = 7" by (simp add: example_dto_def)
  have p: "fst (AutoWriteController_post example_Date example_dto example_world) = Inr 1002"
    by code_simp
  have g: "fst (AutoMutationResolver_create example_Date example_dto example_world) = Inr 1002"
    by code_simp
  show ?thesis
    using create_version_zero[of example_Date example_dto example_world 1002] v p g
    by blast
qed

text \<open>
  The service by itself stores the version its input carries: the value 0 comes from the
  two mappings of the DTO.
\<close>

lemma create_stores_given_version:
  "AutoWriteService_create a w = (Inr i, w') \<Longrightarrow> cr_version a = Some v \<Longrightarrow>
   map_option version (find (\<lambda>x. sint (id_auto x) = i) (autos w')) = Some v"
  by (simp add: create_Inr version_new_row)

subsection \<open>The claim about \<open>delete\<close>\<close>

lemma find_filter_none: "find (\<lambda>r. sint (id_auto r) = i) (filter (\<lambda>x. sint (id_auto x) \<noteq> i) xs) = None"
  by (induction xs) auto

lemma delete_existing:
  assumes "find (\<lambda>r. sint (id_auto r) = i) (autos w) = Some r"
  shows "AutoWriteService_delete i w =
           (Inr True,
            (log_call (CallDelete i) (log_call (CallFindUnique i) w))
              \<lparr>autos := filter (\<lambda>x. sint (id_auto x) \<noteq> i) (autos w),
               modelle := filter (\<lambda>m. modell_auto_id m \<noteq> i) (modelle w),
               bilder := filter (\<lambda>b. bild_auto_id b \<noteq> i) (bilder w),
               files := filter (\<lambda>f. file_auto_id f \<noteq> i) (files w)\<rparr>)"
  using assms find_int32[OF assms]
  by (simp add: AutoWriteService_delete_def prisma_findUnique_found transaction_def
      prisma_delete_def Let_def log_call_def)

lemma delete_missing:
  assumes "find (\<lambda>r. sint (id_auto r) = i) (autos w) = None" and "int32 i"
  shows "AutoWriteService_delete i w = (Inr False, log_call (CallFindUnique i) w)"
  using assms by (simp add: AutoWriteService_delete_def prisma_findUnique_missing)

lemma delete_out_of_range:
  assumes "\<not> int32 i"
  shows "AutoWriteService_delete i w =
           (Inl (PrismaError ValueOutOfRange), log_call (CallFindUnique i) w)"
  using assms by (simp add: AutoWriteService_delete_def prisma_findUnique_out_of_range)

text \<open>
  For an id that fits the 32-bit column \<open>delete\<close> does what its documentation says: when a
  row with the id is stored, it returns \<open>true\<close>, no row with the id is stored afterwards
  and \<open>findById\<close> then ends with \<open>NotFoundException\<close>; when none is stored, it returns
  \<open>false\<close>, raises nothing and only the read is recorded. A second \<open>delete\<close> for the same id
  returns \<open>false\<close>.
\<close>

lemma delete_in_range:
  assumes "int32 i"
  shows "(find (\<lambda>r. sint (id_auto r) = i) (autos w) \<noteq> None \<longrightarrow>
            fst (AutoWriteService_delete i w) = Inr True \<and>
            find (\<lambda>r. sint (id_auto r) = i) (autos (snd (AutoWriteService_delete i w))) = None \<and>
            fst (AutoService_findById i b (snd (AutoWriteService_delete i w))) =
              Inl (NotFoundException (KeinAutoMitId (Some i)))) \<and>
         (find (\<lambda>r. sint (id_auto r) = i) (autos w) = None \<longrightarrow>
            AutoWriteService_delete i w = (Inr False, log_call (CallFindUnique i) w)) \<and>
         fst (AutoWriteService_delete i (snd (AutoWriteService_delete i w))) = Inr False"
proof (cases "find (\<lambda>r. sint (id_auto r) = i) (autos w)")
  case None
  then show ?thesis using assms by (simp add: delete_missing)
next
  case (Some r)
  let ?w' = "snd (AutoWriteService_delete i w)"
  have gone: "find (\<lambda>r. sint (id_auto r) = i) (autos ?w') = None"
    by (simp add: delete_existing[OF Some] find_filter_none)
  have "fst (AutoWriteService_delete i w) = Inr True" by (simp add: delete_existing[OF Some])
  moreover have "fst (AutoService_findById i b ?w')
                   = Inl (NotFoundException (KeinAutoMitId (Some i)))"
    by (simp add: findById_missing[OF gone assms])
  moreover have "fst (AutoWriteService_delete i ?w') = Inr False"
    by (simp add: delete_missing[OF gone assms])
  ultimately show ?thesis using gone Some by simp
qed

text \<open>
  C9. The claim reads: for every id, \<open>delete\<close> never fails when no row with the id is
  stored, it returns \<open>false\<close>. The id 2147483648 does not fit the 32-bit column \<open>id\<close>: no
  row has it, \<open>findUnique\<close> throws, and \<open>delete\<close>, which neither bounds the id nor catches
  what is thrown, raises that error where its documentation promises \<open>false\<close>.
\<close>

theorem delete_absent_id_out_of_range_raises:
  "find (\<lambda>r. sint (id_auto r) = 2147483648) (autos example_world) = None \<and>
   AutoWriteService_delete 2147483648 example_world =
     (Inl (PrismaError ValueOutOfRange), log_call (CallFindUnique 2147483648) example_world)"
proof -
  have r: "\<not> int32 2147483648" by (simp add: int32_def)
  have "sint (id_auto x) \<noteq> 2147483648" for x :: auto_row
    using r int32_sint[of "id_auto x"] by auto
  then have "find (\<lambda>r. sint (id_auto r) = 2147483648) (autos example_world) = None"
    by (simp add: find_None_iff)
  then show ?thesis using delete_out_of_range[OF r] by simp
qed

subsection \<open>Claims about \<open>find\<close> and \<open>build\<close>\<close>

lemma checkKeys_foldl:
  "foldl (\<lambda>validKeys key. if \<not> List.member suchparameterNamen key then False else validKeys) b keys
     = (b \<and> list_all (\<lambda>k. k \<in> set suchparameterNamen) keys)"
  by (induction keys arbitrary: b) auto

lemma checkKeys_iff: "checkKeys keys \<longleftrightarrow> set keys \<subseteq> set suchparameterNamen"
  unfolding checkKeys_def checkKeys_foldl by (auto simp: list_all_iff)

text \<open>
  C7. Search parameters that are not empty and hold a name outside the eight names of
  \<open>suchparameterNamen\<close>, or whose \<open>art\<close> is there and is none of \<open>COUPE\<close>, \<open>LIMO\<close>, \<open>KOMBI\<close>, end
  \<open>find\<close> with \<open>NotFoundException\<close>, whatever the other parameters are; the world is the one
  before the call.
\<close>

theorem find_invalid_suchparameter:
  assumes "sp \<noteq> []"
    and "(\<exists>k \<in> set (map fst sp). k \<notin> set suchparameterNamen) \<or>
         get_prop sp ''art'' \<notin> {JUndefined, JString ''COUPE'', JString ''LIMO'', JString ''KOMBI''}"
  shows "AutoService_find nd (Some sp) pg w = (Inl (NotFoundException UngueltigeSuchparameter), w)"
proof -
  from assms(2) have "\<not> checkKeys (map fst sp) \<or> \<not> checkEnums sp"
    unfolding checkKeys_iff by (auto simp: checkEnums_def Let_def)
  then show ?thesis using assms(1) by (auto simp: AutoService_find_def Let_def)
qed

theorem find_invalid_suchparameter_witness:
  "AutoService_find example_Date (Some [(''fgnr'', JString ''1''), (''farbe'', JString ''rot'')])
     example_page example_world
     = (Inl (NotFoundException UngueltigeSuchparameter), example_world) \<and>
   AutoService_find example_Date (Some [(''art'', JString ''SUV''), (''fgnr'', JString ''1'')])
     example_page example_world
     = (Inl (NotFoundException UngueltigeSuchparameter), example_world)"
proof -
  have k: "\<exists>k \<in> set (map fst [(''fgnr'', JString ''1''), (''farbe'', JString ''rot'')]).
             k \<notin> set suchparameterNamen"
    by (simp add: suchparameterNamen_def)
  have a: "get_prop [(''art'', JString ''SUV''), (''fgnr'', JString ''1'')] ''art''
             \<notin> {JUndefined, JString ''COUPE'', JString ''LIMO'', JString ''KOMBI''}"
    by (simp add: get_prop_def)
  show ?thesis
    using find_invalid_suchparameter[of "[(''fgnr'', JString ''1''), (''farbe'', JString ''rot'')]"
            example_Date example_page example_world]
          find_invalid_suchparameter[of "[(''art'', JString ''SUV''), (''fgnr'', JString ''1'')]"
            example_Date example_page example_world]
          k a
    by blast
qed

lemma prisma_findMany_world: "snd (prisma_findMany wh sk tk w) = log_call CallFindMany w"
  by (simp add: prisma_findMany_def Let_def split: option.splits)

lemma AutoService_count_eq: "AutoService_count w = (length (autos w), log_call CallCount w)"
  by (simp add: AutoService_count_def prisma_count_def)

lemma totalElements_createSlice [simp]: "totalElements (createSlice as n) = n"
  by (simp add: createSlice_def)

lemma page_total:
  assumes "(case prisma_findMany wh sk tk w of
              (Inl e, w1) \<Rightarrow> (Inl e, w1)
            | (Inr as, w1) \<Rightarrow>
                if length as = 0 then (Inl x, w1)
                else (case AutoService_count w1 of (n, w2) \<Rightarrow> (Inr (createSlice as n), w2)))
           = (Inr sl, w')"
  shows "totalElements sl = length (autos w)"
proof -
  obtain res w1 where f: "prisma_findMany wh sk tk w = (res, w1)"
    by (cases "prisma_findMany wh sk tk w")
  have w1: "w1 = log_call CallFindMany w" using prisma_findMany_world[of wh sk tk w] f by simp
  show ?thesis
  proof (cases res)
    case (Inl e)
    then show ?thesis using assms f by simp
  next
    case (Inr as)
    then show ?thesis using assms f w1
      by (auto simp: AutoService_count_eq split: if_splits)
  qed
qed

lemma findAll_total:
  "findAll pg w = (Inr sl, w') \<Longrightarrow> totalElements sl = length (autos w)"
  unfolding findAll_def by (rule page_total)

text \<open>
  C1, as claimed: \<open>totalElements\<close> is the number of the rows that match the search
  parameters. With the chassis-number prefix \<open>1-0001\<close> one of the two stored rows
  matches, the search parameters are valid, and \<open>find\<close> returns \<open>totalElements = 2\<close>.
\<close>

theorem find_total_counterexample:
  "checkKeys (map fst example_filter) \<and> checkEnums example_filter \<and>
   WhereBuilder_build example_Date example_filter = Inr example_where \<and>
   length (filter (matches_auto example_world example_where) (autos example_world)) = 1 \<and>
   map_sum id totalElements
     (fst (AutoService_find example_Date (Some example_filter) example_page example_world)) = Inr 2"
  by code_simp


text \<open>
  C1, amended: whenever \<open>find\<close> returns a slice, with search parameters or without, its
  \<open>totalElements\<close> is the number of all rows of \<open>auto\<close>, which is what \<open>count()\<close> returns.
\<close>

theorem find_total_is_count_of_all:
  assumes "AutoService_find nd spo pg w = (Inr sl, w')"
  shows "totalElements sl = length (autos w)"
proof (cases spo)
  case None
  then show ?thesis using assms findAll_total by (simp add: AutoService_find_def)
next
  case (Some sp)
  show ?thesis
  proof (cases "sp = []")
    case True
    then show ?thesis using assms Some findAll_total by (simp add: AutoService_find_def)
  next
    case False
    from assms Some False obtain wh where b: "WhereBuilder_build nd sp = Inr wh"
      and ok: "checkKeys (map fst sp)" "checkEnums sp"
      by (auto simp: AutoService_find_def Let_def split: if_splits sum.splits)
    show ?thesis
      by (rule page_total[where wh = "Some wh" and sk = "number pg * size_p pg"
                and tk = "size_p pg" and w' = w'
                and x = "NotFoundException (KeineAutosGefunden sp (number pg))"])
         (use assms Some False b ok in \<open>simp add: AutoService_find_def Let_def\<close>)
  qed
qed

theorem find_total_witness:
  "map_sum id totalElements
     (fst (AutoService_find example_Date (Some example_filter) example_page example_world))
     = Inr (length (autos example_world))"
proof -
  let ?r = "AutoService_find example_Date (Some example_filter) example_page example_world"
  have "\<not> isl (fst ?r)" by code_simp
  then obtain sl where sl: "fst ?r = Inr sl" by (cases "fst ?r") auto
  then have f: "?r = (Inr sl, snd ?r)" by (simp add: prod_eq_iff)
  from find_total_is_count_of_all[OF f] sl show ?thesis by simp
qed

lemma build_entry_other:
  "fst kv \<noteq> ''preis'' \<Longrightarrow> fst kv \<noteq> ''rabatt'' \<Longrightarrow>
   build_entry nd kv (wh\<lparr>where_preis := p, where_rabatt := r\<rparr>)
     = (build_entry nd kv wh)\<lparr>where_preis := p, where_rabatt := r\<rparr>"
  by (cases kv) (simp add: build_entry_def Let_def)

lemma build_entry_preis:
  "build_entry nd (''preis'', v) wh =
     wh\<lparr>where_preis := (if isNaN (parseFloat_value v) then where_preis wh
                          else Some (Lte (parseFloat_value v)))\<rparr>"
  by (simp add: build_entry_def Let_def)

lemma build_entry_rabatt:
  "build_entry nd (''rabatt'', v) wh =
     wh\<lparr>where_rabatt := (case parseInt_value v of None \<Rightarrow> where_rabatt wh
                           | Some n \<Rightarrow> Some (Gte n))\<rparr>"
  by (simp add: build_entry_def split: option.splits)

lemma map_of_snoc_fresh:
  "k \<notin> fst ` set xs \<Longrightarrow> map_of (xs @ [(k, v)]) k = Some v"
proof -
  assume "k \<notin> fst ` set xs"
  then have "map_of xs k = None" by (simp add: map_of_eq_None_iff)
  then show ?thesis by (simp add: map_add_def)
qed

lemma map_of_snoc_other:
  "k \<noteq> k' \<Longrightarrow> map_of (xs @ [(k', v)]) k = map_of xs k"
  by (simp add: map_add_def split: option.splits)

lemma fold_build_entry:
  assumes "distinct (map fst xs)"
  shows "foldl (\<lambda>wh kv. build_entry nd kv wh) wh0 xs =
           (foldl (\<lambda>wh kv. build_entry nd kv wh) wh0 (filter (\<lambda>kv. fst kv \<noteq> ''preis'' \<and> fst kv \<noteq> ''rabatt'') xs))
             \<lparr>where_preis :=
                (case map_of xs ''preis'' of
                   None \<Rightarrow> where_preis wh0
                 | Some v \<Rightarrow> if isNaN (parseFloat_value v) then where_preis wh0
                             else Some (Lte (parseFloat_value v))),
              where_rabatt :=
                (case map_of xs ''rabatt'' of
                   None \<Rightarrow> where_rabatt wh0
                 | Some v \<Rightarrow> (case parseInt_value v of None \<Rightarrow> where_rabatt wh0
                              | Some n \<Rightarrow> Some (Gte n)))\<rparr>"
  using assms
proof (induction xs rule: rev_induct)
  case Nil
  then show ?case by simp
next
  case (snoc x xs)
  obtain k v where x: "x = (k, v)" by (cases x)
  from snoc.prems have d: "distinct (map fst xs)" and fresh: "k \<notin> fst ` set xs"
    by (auto simp: x)
  define S where "S = foldl (\<lambda>wh kv. build_entry nd kv wh) wh0 xs"
  define T where "T = foldl (\<lambda>wh kv. build_entry nd kv wh) wh0 (filter (\<lambda>kv. fst kv \<noteq> ''preis'' \<and> fst kv \<noteq> ''rabatt'') xs)"
  define A where "A = (case map_of xs ''preis'' of
                   None \<Rightarrow> where_preis wh0
                 | Some v \<Rightarrow> if isNaN (parseFloat_value v) then where_preis wh0
                             else Some (Lte (parseFloat_value v)))"
  define B where "B = (case map_of xs ''rabatt'' of
                   None \<Rightarrow> where_rabatt wh0
                 | Some v \<Rightarrow> (case parseInt_value v of None \<Rightarrow> where_rabatt wh0
                              | Some n \<Rightarrow> Some (Gte n)))"
  have ih: "S = T\<lparr>where_preis := A, where_rabatt := B\<rparr>"
    unfolding S_def T_def A_def B_def by (rule snoc.IH[OF d])
  have step: "foldl (\<lambda>wh kv. build_entry nd kv wh) wh0 (xs @ [x]) = build_entry nd (k, v) S"
    by (simp add: S_def x)
  consider (p) "k = ''preis''" | (r) "k = ''rabatt''" | (o) "k \<noteq> ''preis''" "k \<noteq> ''rabatt''"
    by blast
  then show ?case
  proof cases
    case p
    have np: "map_of xs ''preis'' = None" using fresh p by (simp add: map_of_eq_None_iff)
    have mp: "map_of (xs @ [x]) ''preis'' = Some v"
      unfolding x p using fresh p by (intro map_of_snoc_fresh) simp
    have mr: "map_of (xs @ [x]) ''rabatt'' = map_of xs ''rabatt''"
      unfolding x using p by (intro map_of_snoc_other) simp_all
    have wn: "filter (\<lambda>kv. fst kv \<noteq> ''preis'' \<and> fst kv \<noteq> ''rabatt'') (xs @ [x]) = filter (\<lambda>kv. fst kv \<noteq> ''preis'' \<and> fst kv \<noteq> ''rabatt'') xs"
      using p x by simp
    have A: "A = where_preis wh0" by (simp add: A_def np)
    have "build_entry nd (k, v) S =
            T\<lparr>where_preis := (if isNaN (parseFloat_value v) then where_preis wh0
                                else Some (Lte (parseFloat_value v))),
               where_rabatt := B\<rparr>"
      unfolding p build_entry_preis by (simp add: ih A)
    then show ?thesis unfolding step wn mp mr by (simp add: T_def B_def)
  next
    case r
    have nr: "map_of xs ''rabatt'' = None" using fresh r by (simp add: map_of_eq_None_iff)
    have mr: "map_of (xs @ [x]) ''rabatt'' = Some v"
      unfolding x r using fresh r by (intro map_of_snoc_fresh) simp
    have mp: "map_of (xs @ [x]) ''preis'' = map_of xs ''preis''"
      unfolding x using r by (intro map_of_snoc_other) simp_all
    have wn: "filter (\<lambda>kv. fst kv \<noteq> ''preis'' \<and> fst kv \<noteq> ''rabatt'') (xs @ [x]) = filter (\<lambda>kv. fst kv \<noteq> ''preis'' \<and> fst kv \<noteq> ''rabatt'') xs"
      using r x by simp
    have B: "B = where_rabatt wh0" by (simp add: B_def nr)
    have "build_entry nd (k, v) S =
            T\<lparr>where_preis := A,
               where_rabatt := (case parseInt_value v of None \<Rightarrow> where_rabatt wh0
                                | Some n \<Rightarrow> Some (Gte n))\<rparr>"
      unfolding r build_entry_rabatt by (simp add: ih B split: option.splits)
    then show ?thesis unfolding step wn mp mr by (simp add: T_def A_def)
  next
    case o
    have mp: "map_of (xs @ [x]) ''preis'' = map_of xs ''preis''"
      unfolding x using o by (intro map_of_snoc_other) simp_all
    have mr: "map_of (xs @ [x]) ''rabatt'' = map_of xs ''rabatt''"
      unfolding x using o by (intro map_of_snoc_other) simp_all
    have wn: "filter (\<lambda>kv. fst kv \<noteq> ''preis'' \<and> fst kv \<noteq> ''rabatt'') (xs @ [x]) = filter (\<lambda>kv. fst kv \<noteq> ''preis'' \<and> fst kv \<noteq> ''rabatt'') xs @ [x]"
      using o x by simp
    have "build_entry nd (k, v) S = (build_entry nd (k, v) T)\<lparr>where_preis := A, where_rabatt := B\<rparr>"
      unfolding ih by (rule build_entry_other) (use o in simp_all)
    then show ?thesis unfolding step wn mp mr by (simp add: T_def A_def B_def x)
  qed
qed

lemma map_of_filter_fst:
  "P k \<Longrightarrow> map_of (filter (\<lambda>kv. P (fst kv)) xs) k = map_of xs k"
  by (induction xs) auto

lemma get_prop_filter_fst:
  "P k \<Longrightarrow> get_prop (filter (\<lambda>kv. P (fst kv)) xs) k = get_prop xs k"
  by (simp add: get_prop_def map_of_filter_fst)

text \<open>
  C8. For search parameters with distinct names, \<open>build\<close> gives what it gives for the same
  parameters without \<open>preis\<close> and \<open>rabatt\<close> (the same error, or the same conditions on the
  other columns), with the two conditions set as follows: for \<open>preis\<close>, none when the value
  is absent or \<open>parseFloat\<close> gives \<open>NaN\<close>, otherwise \<open>lte\<close> of the parsed number; for \<open>rabatt\<close>,
  none when the value is absent or \<open>parseInt\<close> gives \<open>NaN\<close>, otherwise \<open>gte\<close> of the parsed
  number.
\<close>

theorem build_tolerant:
  assumes "distinct (map fst sp)"
  shows "WhereBuilder_build nd sp =
           map_sum id
             (\<lambda>wh. wh\<lparr>where_preis :=
                         (case map_of sp ''preis'' of
                            None \<Rightarrow> None
                          | Some v \<Rightarrow> if isNaN (parseFloat_value v) then None
                                      else Some (Lte (parseFloat_value v))),
                       where_rabatt :=
                         (case map_of sp ''rabatt'' of
                            None \<Rightarrow> None
                          | Some v \<Rightarrow> (case parseInt_value v of
                                         None \<Rightarrow> None
                                       | Some n \<Rightarrow> Some (Gte n)))\<rparr>)
             (WhereBuilder_build nd
                (filter (\<lambda>kv. fst kv \<noteq> ''preis'' \<and> fst kv \<noteq> ''rabatt'') sp))"
proof -
  let ?N = "\<lambda>kv::string \<times> jsvalue. fst kv \<noteq> ''preis'' \<and> fst kv \<noteq> ''rabatt''"
  let ?S = "\<lambda>kv::string \<times> jsvalue. fst kv \<noteq> ''schlagwort''"
  let ?be = "\<lambda>wh kv. build_entry nd kv wh"
  have d: "distinct (map fst (filter ?S sp))" using assms by (rule distinct_map_filter)
  have mp: "map_of (filter ?S sp) ''preis'' = map_of sp ''preis''"
    by (rule map_of_filter_fst[where P = "\<lambda>k. k \<noteq> ''schlagwort''"]) simp
  have mr: "map_of (filter ?S sp) ''rabatt'' = map_of sp ''rabatt''"
    by (rule map_of_filter_fst[where P = "\<lambda>k. k \<noteq> ''schlagwort''"]) simp
  have sw: "get_prop (filter ?N sp) ''schlagwort'' = get_prop sp ''schlagwort''"
    by (rule get_prop_filter_fst[where P = "\<lambda>k. k \<noteq> ''preis'' \<and> k \<noteq> ''rabatt''"]) simp
  have ff: "filter ?N (filter ?S sp) = filter ?S (filter ?N sp)"
    by (simp add: conj_commute)
  have e1: "where_preis empty_where = None" "where_rabatt empty_where = None"
    by (simp_all add: empty_where_def)
  have fold: "foldl ?be empty_where (filter ?S sp) =
           (foldl ?be empty_where (filter ?S (filter ?N sp)))
             \<lparr>where_preis :=
                (case map_of sp ''preis'' of
                   None \<Rightarrow> None
                 | Some v \<Rightarrow> if isNaN (parseFloat_value v) then None
                             else Some (Lte (parseFloat_value v))),
              where_rabatt :=
                (case map_of sp ''rabatt'' of
                   None \<Rightarrow> None
                 | Some v \<Rightarrow> (case parseInt_value v of None \<Rightarrow> None
                              | Some n \<Rightarrow> Some (Gte n)))\<rparr>"
    using fold_build_entry[OF d, of nd empty_where] unfolding mp mr ff e1 .
  show ?thesis
    unfolding WhereBuilder_build_def Let_def sw fold
    by (simp split: sum.splits option.splits)
qed

theorem build_tolerant_witness:
  "distinct (map fst numeric_filter) \<and>
   WhereBuilder_build example_Date numeric_filter =
     Inr (empty_where\<lparr>where_modell := Some (ContainsInsensitive (JString ''bm'')),
                      where_rabatt := Some (Gte 12)\<rparr>)"
proof -
  have d: "distinct (map fst numeric_filter)" by (simp add: numeric_filter_def)
  have e: "map_sum id
             (\<lambda>wh. wh\<lparr>where_preis :=
                         (case map_of numeric_filter ''preis'' of
                            None \<Rightarrow> None
                          | Some v \<Rightarrow> if isNaN (parseFloat_value v) then None
                                      else Some (Lte (parseFloat_value v))),
                       where_rabatt :=
                         (case map_of numeric_filter ''rabatt'' of
                            None \<Rightarrow> None
                          | Some v \<Rightarrow> (case parseInt_value v of
                                         None \<Rightarrow> None
                                       | Some n \<Rightarrow> Some (Gte n)))\<rparr>)
             (WhereBuilder_build example_Date
                (filter (\<lambda>kv. fst kv \<noteq> ''preis'' \<and> fst kv \<noteq> ''rabatt'') numeric_filter))
           = Inr (empty_where\<lparr>where_modell := Some (ContainsInsensitive (JString ''bm'')),
                      where_rabatt := Some (Gte 12)\<rparr>)"
    by code_simp
  show ?thesis using d build_tolerant[OF d, of example_Date, THEN trans, OF e] by simp
qed

end
